theory Spec2Isabelle
  imports Main "HOL-Library.Word" "HOL-Library.Multiset"
begin

section \<open>Shared vocabulary\<close>

text \<open>
  The packages \<open>cloudprotocol\<close> and \<open>cmserver\<close> are imported by the sources but are not
  part of them. Their record types are given here with the fields the sources read or
  write, and their status constants with the values of the specification's status
  vocabulary. A status is a Go string, so it stays a string here.
\<close>

text \<open>Modelled from the spec: the status constants of \<open>cloudprotocol\<close> (section "Status
  vocabulary"); the package itself is not among the sources.\<close>

definition InstalledStatus :: string where "InstalledStatus = ''installed''"
definition ErrorStatus :: string where "ErrorStatus = ''error''"
definition UnknownStatus :: string where "UnknownStatus = ''unknown''"
definition InstallingStatus :: string where "InstallingStatus = ''installing''"
definition RemovingStatus :: string where "RemovingStatus = ''removing''"
definition RemovedStatus :: string where "RemovedStatus = ''removed''"

text \<open>The constant \<open>cloudprotocol.DownloadedStatus\<close> is used by the UM controller; no
  theorem below depends on its value.\<close>

definition DownloadedStatus :: string where "DownloadedStatus = ''downloaded''"


record BoardConfigInfo =
  bc_VendorVersion :: string
  bc_Status :: string
  bc_Error :: string

record ComponentInfo =
  ci_ID :: string
  ci_AosVersion :: "64 word"
  ci_VendorVersion :: string
  ci_Status :: string
  ci_Error :: string

record LayerInfo =
  li_ID :: string
  li_AosVersion :: "64 word"
  li_Digest :: string
  li_Status :: string
  li_Error :: string

record ServiceInfo =
  si_ID :: string
  si_AosVersion :: "64 word"
  si_Status :: string
  si_Error :: string
  si_StateChecksum :: string

text \<open>\<open>strconv.FormatUint(v, 10)\<close>: the decimal digits of an unsigned number, most
  significant first, with no leading zero.\<close>

definition digit_char :: "nat \<Rightarrow> char" where
  "digit_char d = char_of (48 + d)"

function FormatUint :: "nat \<Rightarrow> string" where
  "FormatUint n =
     (if n < 10 then [digit_char n] else FormatUint (n div 10) @ [digit_char (n mod 10)])"
  by pat_completeness auto
termination
  by (relation "measure id") auto

declare FormatUint.simps [simp del]

section \<open>Unit status aggregator: item status collections\<close>

text \<open>
  A \<open>statusDescriptor\<close> wraps an \<open>interface{}\<close>; \<open>getStatus\<close> and \<open>getVersion\<close> switch
  on its dynamic type. The four pointer types get a constructor each, any other dynamic
  type (the \<open>default\<close> branch) is \<open>OtherStatus\<close>. Each descriptor points to a copy made
  by the caller, so descriptors are values.
\<close>

datatype statusDescriptor =
    BoardConfigDesc BoardConfigInfo
  | ComponentDesc ComponentInfo
  | LayerDesc LayerInfo
  | ServiceDesc ServiceInfo
  | OtherStatus

type_synonym itemStatus = "statusDescriptor list"

fun getStatus :: "statusDescriptor \<Rightarrow> string" where
  "getStatus (BoardConfigDesc b) = bc_Status b"
| "getStatus (ComponentDesc c) = ci_Status c"
| "getStatus (LayerDesc l) = li_Status l"
| "getStatus (ServiceDesc s) = si_Status s"
| "getStatus OtherStatus = UnknownStatus"

fun getVersion :: "statusDescriptor \<Rightarrow> string" where
  "getVersion (BoardConfigDesc b) = bc_VendorVersion b"
| "getVersion (ComponentDesc c) = ci_VendorVersion c"
| "getVersion (LayerDesc l) = FormatUint (unat (li_AosVersion l))"
| "getVersion (ServiceDesc s) = FormatUint (unat (si_AosVersion s))"
| "getVersion OtherStatus = []"

text \<open>The loop of \<open>updateStatus\<close>: the first element with the descriptor's version is
  overwritten; when the range ends without a match the descriptor is appended.\<close>

fun replaceOrAppend :: "itemStatus \<Rightarrow> statusDescriptor \<Rightarrow> itemStatus" where
  "replaceOrAppend [] d = [d]"
| "replaceOrAppend (element # rest) d =
     (if getVersion element = getVersion d then d # rest
      else element # replaceOrAppend rest d)"

definition updateStatus :: "itemStatus \<Rightarrow> statusDescriptor \<Rightarrow> itemStatus" where
  "updateStatus status descriptor =
     (if getStatus descriptor = InstalledStatus then [descriptor]
      else replaceOrAppend status descriptor)"

section \<open>Item status collections: properties\<close>

lemma replaceOrAppend_no_match:
  "getVersion d \<notin> getVersion ` set st \<Longrightarrow> replaceOrAppend st d = st @ [d]"
  by (induction st) auto

lemma replaceOrAppend_match:
  "getVersion d \<in> getVersion ` set st \<Longrightarrow>
   \<exists>i < length st. getVersion (st ! i) = getVersion d
      \<and> getVersion d \<notin> getVersion ` set (take i st)
      \<and> replaceOrAppend st d = st[i := d]"
proof (induction st)
  case Nil
  then show ?case by simp
next
  case (Cons e st)
  show ?case
  proof (cases "getVersion e = getVersion d")
    case True
    then have "getVersion ((e # st) ! 0) = getVersion d
        \<and> getVersion d \<notin> getVersion ` set (take 0 (e # st))
        \<and> replaceOrAppend (e # st) d = (e # st)[0 := d]"
      by simp
    then show ?thesis by blast
  next
    case False
    with Cons.prems have "getVersion d \<in> getVersion ` set st" by auto
    from Cons.IH [OF this] obtain i where i: "i < length st"
      "getVersion (st ! i) = getVersion d"
      "getVersion d \<notin> getVersion ` set (take i st)"
      "replaceOrAppend st d = st[i := d]"
      by blast
    with False have "Suc i < length (e # st)
        \<and> getVersion ((e # st) ! Suc i) = getVersion d
        \<and> getVersion d \<notin> getVersion ` set (take (Suc i) (e # st))
        \<and> replaceOrAppend (e # st) d = (e # st)[Suc i := d]"
      by auto
    then show ?thesis by blast
  qed
qed

text \<open>
  Claim C1. One application of \<open>updateStatus\<close> to a collection and a reported descriptor:
  when the descriptor's status is \<open>installed\<close> the collection becomes exactly that one
  descriptor; otherwise, when some element has the descriptor's version, the first such
  element is overwritten in place and the length is unchanged; otherwise the descriptor is
  appended at the end.
\<close>

theorem updateStatus_cases:
  "(getStatus d = InstalledStatus \<longrightarrow> updateStatus st d = [d])
   \<and> (getStatus d \<noteq> InstalledStatus \<and> getVersion d \<in> getVersion ` set st \<longrightarrow>
        (\<exists>i < length st. getVersion (st ! i) = getVersion d
            \<and> getVersion d \<notin> getVersion ` set (take i st)
            \<and> updateStatus st d = st[i := d])
        \<and> length (updateStatus st d) = length st)
   \<and> (getStatus d \<noteq> InstalledStatus \<and> getVersion d \<notin> getVersion ` set st \<longrightarrow>
        updateStatus st d = st @ [d])"
proof (intro conjI impI)
  assume "getStatus d = InstalledStatus"
  then show "updateStatus st d = [d]" by (simp add: updateStatus_def)
next
  assume a: "getStatus d \<noteq> InstalledStatus \<and> getVersion d \<in> getVersion ` set st"
  then have u: "updateStatus st d = replaceOrAppend st d" by (simp add: updateStatus_def)
  from a replaceOrAppend_match [of d st] obtain i where i: "i < length st"
    "getVersion (st ! i) = getVersion d"
    "getVersion d \<notin> getVersion ` set (take i st)"
    "replaceOrAppend st d = st[i := d]"
    by blast
  with u show "\<exists>i < length st. getVersion (st ! i) = getVersion d
      \<and> getVersion d \<notin> getVersion ` set (take i st)
      \<and> updateStatus st d = st[i := d]"
    by auto
  from u i show "length (updateStatus st d) = length st" by simp
next
  assume "getStatus d \<noteq> InstalledStatus \<and> getVersion d \<notin> getVersion ` set st"
  then show "updateStatus st d = st @ [d]"
    by (simp add: updateStatus_def replaceOrAppend_no_match)
qed

text \<open>Sample descriptors of one component: a failed version 1, a re-report of version 1,
  a report of version 2, and version 2 installed.\<close>

definition c1_old :: ComponentInfo where
  "c1_old = \<lparr>ci_ID = ''um1C1'', ci_AosVersion = 1, ci_VendorVersion = ''1'',
     ci_Status = ''error'', ci_Error = ''failed''\<rparr>"

definition c1_new :: ComponentInfo where
  "c1_new = \<lparr>ci_ID = ''um1C1'', ci_AosVersion = 1, ci_VendorVersion = ''1'',
     ci_Status = ''installing'', ci_Error = ''''\<rparr>"

definition c1_other :: ComponentInfo where
  "c1_other = \<lparr>ci_ID = ''um1C1'', ci_AosVersion = 2, ci_VendorVersion = ''2'',
     ci_Status = ''installing'', ci_Error = ''''\<rparr>"

definition c1_done :: ComponentInfo where
  "c1_done = \<lparr>ci_ID = ''um1C1'', ci_AosVersion = 2, ci_VendorVersion = ''2'',
     ci_Status = ''installed'', ci_Error = ''''\<rparr>"

theorem updateStatus_cases_witness:
  "getStatus (ComponentDesc c1_done) = InstalledStatus
   \<and> updateStatus [ComponentDesc c1_old] (ComponentDesc c1_done) = [ComponentDesc c1_done]
   \<and> getStatus (ComponentDesc c1_new) \<noteq> InstalledStatus
   \<and> getVersion (ComponentDesc c1_new) \<in> getVersion ` set [ComponentDesc c1_old]
   \<and> length (updateStatus [ComponentDesc c1_old] (ComponentDesc c1_new)) = 1
   \<and> getStatus (ComponentDesc c1_other) \<noteq> InstalledStatus
   \<and> getVersion (ComponentDesc c1_other) \<notin> getVersion ` set [ComponentDesc c1_old]
   \<and> updateStatus [ComponentDesc c1_old] (ComponentDesc c1_other)
       = [ComponentDesc c1_old, ComponentDesc c1_other]"
  using updateStatus_cases [of "ComponentDesc c1_done" "[ComponentDesc c1_old]"]
    updateStatus_cases [of "ComponentDesc c1_new" "[ComponentDesc c1_old]"]
    updateStatus_cases [of "ComponentDesc c1_other" "[ComponentDesc c1_old]"]
  by (simp add: c1_old_def c1_new_def c1_other_def c1_done_def InstalledStatus_def)

section \<open>Action handler\<close>

text \<open>
  The handler of \<open>utils/action\<close>: two queues of actions behind one mutex. An action is an
  id and a closure; the closure is opaque here (type \<open>'f\<close>). Every method body runs with
  the mutex held, so a run of the handler is a sequence of whole steps: an \<open>Execute\<close>
  call, or the locked part of \<open>processAction\<close> for an action that has returned. The
  \<open>container/list\<close> queues are lists, front first; the element pointer that
  \<open>processAction\<close> holds is the position of its action in the work queue.
\<close>

record 'f action =
  act_id :: string
  doAction :: 'f

record 'f Handler =
  h_maxConcurrentActions :: int
  waitQueue :: "'f action list"
  workQueue :: "'f action list"

text \<open>The software manager creates its handler with this bound.\<close>

definition maxConcurrentActions :: int where
  "maxConcurrentActions = 10"

definition New :: "int \<Rightarrow> 'f Handler" where
  "New m = \<lparr>h_maxConcurrentActions = m, waitQueue = [], workQueue = []\<rparr>"

fun isIDInQueue :: "'f action list \<Rightarrow> string \<Rightarrow> bool" where
  "isIDInQueue [] i = False"
| "isIDInQueue (item # rest) i = (if act_id item = i then True else isIDInQueue rest i)"

definition isIDInWorkQueue :: "'f Handler \<Rightarrow> string \<Rightarrow> bool" where
  "isIDInWorkQueue handler i = isIDInQueue (workQueue handler) i"

text \<open>\<open>Execute\<close> returns the handler and, when the action was started, the action a
  goroutine now runs.\<close>

definition Execute :: "'f Handler \<Rightarrow> string \<Rightarrow> 'f \<Rightarrow> 'f Handler \<times> 'f action option" where
  "Execute handler i f =
     (let newAction = \<lparr>act_id = i, doAction = f\<rparr> in
      if isIDInWorkQueue handler i
      then (handler\<lparr>waitQueue := waitQueue handler @ [newAction]\<rparr>, None)
      else if int (length (workQueue handler)) \<ge> h_maxConcurrentActions handler
      then (handler\<lparr>waitQueue := waitQueue handler @ [newAction]\<rparr>, None)
      else (handler\<lparr>workQueue := workQueue handler @ [newAction]\<rparr>, Some newAction))"

text \<open>The scan of the wait queue in \<open>processAction\<close>: entries whose id is in the work
  queue are passed over; the first other entry is taken out of the wait queue.\<close>

fun scanWaitQueue :: "'f action list \<Rightarrow> 'f action list \<Rightarrow> ('f action \<times> 'f action list) option" where
  "scanWaitQueue work [] = None"
| "scanWaitQueue work (waitItem # rest) =
     (if isIDInQueue work (act_id waitItem)
      then (case scanWaitQueue work rest of
              None \<Rightarrow> None
            | Some (a, rest') \<Rightarrow> Some (a, waitItem # rest'))
      else Some (waitItem, rest))"

definition removeAt :: "nat \<Rightarrow> 'a list \<Rightarrow> 'a list" where
  "removeAt k xs = take k xs @ drop (Suc k) xs"

text \<open>The locked part of \<open>processAction\<close> for the action at position \<open>k\<close> of the work
  queue; it returns the handler and the action promoted from the wait queue, if any.\<close>

definition processAction :: "'f Handler \<Rightarrow> nat \<Rightarrow> 'f Handler \<times> 'f action option" where
  "processAction handler k =
     (let work = removeAt k (workQueue handler) in
      case scanWaitQueue work (waitQueue handler) of
        None \<Rightarrow> (handler\<lparr>workQueue := work\<rparr>, None)
      | Some (a, wait) \<Rightarrow> (handler\<lparr>waitQueue := wait, workQueue := work @ [a]\<rparr>, Some a))"

text \<open>A run: \<open>Call i f\<close> is \<open>Execute(i, f)\<close>, \<open>Completed k\<close> is the return of the action at
  position \<open>k\<close> of the work queue. Only a running action can return, so a sequence with a
  completion at a position the work queue does not have is not a run (\<open>None\<close>).\<close>

datatype 'f handlerEvent = Call string 'f | Completed nat

fun handlerStep :: "'f Handler \<Rightarrow> 'f handlerEvent \<Rightarrow> 'f Handler option" where
  "handlerStep h (Call i f) = Some (fst (Execute h i f))"
| "handlerStep h (Completed k) =
     (if k < length (workQueue h) then Some (fst (processAction h k)) else None)"

fun handlerRun :: "'f Handler \<Rightarrow> 'f handlerEvent list \<Rightarrow> 'f Handler option" where
  "handlerRun h [] = Some h"
| "handlerRun h (e # es) =
     (case handlerStep h e of None \<Rightarrow> None | Some h' \<Rightarrow> handlerRun h' es)"

definition handlerInv :: "'f Handler \<Rightarrow> bool" where
  "handlerInv h = (distinct (map act_id (workQueue h))
     \<and> int (length (workQueue h)) \<le> h_maxConcurrentActions h)"

section \<open>Action handler: properties\<close>

lemma isIDInQueue_iff: "isIDInQueue q i \<longleftrightarrow> i \<in> act_id ` set q"
  by (induction q) auto

lemma scanWaitQueue_None:
  "scanWaitQueue work wait = None \<longleftrightarrow> (\<forall>w \<in> set wait. isIDInQueue work (act_id w))"
  by (induction wait) (auto split: option.splits)

lemma scanWaitQueue_Some:
  "scanWaitQueue work wait = Some (a, wait') \<Longrightarrow>
   \<exists>pre post. wait = pre @ a # post \<and> wait' = pre @ post
     \<and> (\<forall>w \<in> set pre. isIDInQueue work (act_id w))
     \<and> \<not> isIDInQueue work (act_id a)"
proof (induction wait arbitrary: wait')
  case Nil
  then show ?case by simp
next
  case (Cons w rest)
  show ?case
  proof (cases "isIDInQueue work (act_id w)")
    case False
    with Cons.prems have "w = a" "wait' = rest" by auto
    with False have "w # rest = [] @ a # rest \<and> wait' = [] @ rest
        \<and> (\<forall>w \<in> set []. isIDInQueue work (act_id w)) \<and> \<not> isIDInQueue work (act_id a)"
      by simp
    then show ?thesis by blast
  next
    case True
    with Cons.prems obtain r where r: "scanWaitQueue work rest = Some (a, r)" "wait' = w # r"
      by (auto split: option.splits)
    from Cons.IH [OF r(1)] obtain pre post where pp: "rest = pre @ a # post" "r = pre @ post"
      "\<forall>w \<in> set pre. isIDInQueue work (act_id w)" "\<not> isIDInQueue work (act_id a)"
      by blast
    with True r have "w # rest = (w # pre) @ a # post \<and> wait' = (w # pre) @ post
        \<and> (\<forall>x \<in> set (w # pre). isIDInQueue work (act_id x)) \<and> \<not> isIDInQueue work (act_id a)"
      by simp
    then show ?thesis by blast
  qed
qed

lemma set_removeAt: "set (removeAt k xs) \<subseteq> set xs"
  unfolding removeAt_def by (auto dest: in_set_takeD in_set_dropD)

lemma length_removeAt: "k < length xs \<Longrightarrow> Suc (length (removeAt k xs)) = length xs"
  unfolding removeAt_def by auto

lemma distinct_removeAt: "distinct ys \<Longrightarrow> distinct (removeAt k ys)"
  unfolding removeAt_def
  using set_take_disj_set_drop_if_distinct [of ys k "Suc k"] by simp

lemma distinct_map_removeAt: "distinct (map f xs) \<Longrightarrow> distinct (map f (removeAt k xs))"
  using distinct_removeAt [of "map f xs" k]
  by (simp add: removeAt_def take_map drop_map)

lemma handlerInv_New: "0 \<le> m \<Longrightarrow> handlerInv (New m)"
  by (simp add: handlerInv_def New_def)

lemma handlerInv_Execute: "handlerInv h \<Longrightarrow> handlerInv (fst (Execute h i f))"
  by (auto simp: handlerInv_def Execute_def Let_def isIDInWorkQueue_def isIDInQueue_iff)

lemma handlerInv_processAction:
  assumes "handlerInv h" and k: "k < length (workQueue h)"
  shows "handlerInv (fst (processAction h k))"
proof -
  let ?work = "removeAt k (workQueue h)"
  from assms have d: "distinct (map act_id ?work)"
    by (simp add: handlerInv_def distinct_map_removeAt)
  from assms length_removeAt [OF k]
  have l: "int (length ?work) + 1 \<le> h_maxConcurrentActions h"
    by (simp add: handlerInv_def)
  show ?thesis
  proof (cases "scanWaitQueue ?work (waitQueue h)")
    case None
    with d l show ?thesis by (simp add: processAction_def handlerInv_def)
  next
    case (Some p)
    obtain a wait' where p: "p = (a, wait')" by (cases p)
    from scanWaitQueue_Some [OF Some [unfolded p]]
    have "act_id a \<notin> act_id ` set ?work" by (auto simp: isIDInQueue_iff)
    with d l Some p show ?thesis by (simp add: processAction_def handlerInv_def)
  qed
qed

lemma handlerInv_step: "handlerInv h \<Longrightarrow> handlerStep h e = Some h' \<Longrightarrow> handlerInv h'"
  by (cases e) (auto simp: handlerInv_Execute handlerInv_processAction split: if_splits)

lemma handlerInv_run: "handlerInv h \<Longrightarrow> handlerRun h es = Some h' \<Longrightarrow> handlerInv h'"
proof (induction es arbitrary: h)
  case Nil
  then show ?case by simp
next
  case (Cons e es)
  then obtain h1 where s: "handlerStep h e = Some h1" and r: "handlerRun h1 es = Some h'"
    by (auto split: option.splits)
  from handlerInv_step [OF Cons.prems(1) s] Cons.IH r show ?case by blast
qed

lemma max_step: "handlerStep h e = Some h' \<Longrightarrow> h_maxConcurrentActions h' = h_maxConcurrentActions h"
  by (cases e) (auto simp: Execute_def processAction_def Let_def split: if_splits option.splits)

lemma max_run: "handlerRun h es = Some h' \<Longrightarrow> h_maxConcurrentActions h' = h_maxConcurrentActions h"
proof (induction es arbitrary: h)
  case Nil
  then show ?case by simp
next
  case (Cons e es)
  then obtain h1 where s: "handlerStep h e = Some h1" and r: "handlerRun h1 es = Some h'"
    by (auto split: option.splits)
  from max_step [OF s] Cons.IH [OF r] show ?case by simp
qed

lemma scanWaitQueue_first:
  "\<forall>w \<in> set pre. isIDInQueue work (act_id w) \<Longrightarrow> \<not> isIDInQueue work (act_id a) \<Longrightarrow>
   scanWaitQueue work (pre @ a # post) = Some (a, pre @ post)"
  by (induction pre) auto

text \<open>
  Claim C5. For every run of the handler created with \<open>maxConcurrentActions\<close> (10), the
  work queue holds no two actions with one id and at most 10 actions. An \<open>Execute\<close> whose
  id is not in the work queue while the work queue holds fewer than 10 actions appends
  the action to the work queue and starts it; any other \<open>Execute\<close> appends the action to
  the wait queue and starts nothing. A completion takes its action out of the work queue
  and moves the first wait-queue entry whose id is not in the remaining work queue to the
  end of the work queue, starting it; when every waiting id is in the work queue, nothing
  is promoted.
\<close>

theorem action_handler_policy:
  "(handlerRun (New maxConcurrentActions) es = Some h \<longrightarrow>
      distinct (map act_id (workQueue h)) \<and> length (workQueue h) \<le> 10)
   \<and> (h_maxConcurrentActions g = maxConcurrentActions \<longrightarrow>
        (\<not> isIDInWorkQueue g i \<and> length (workQueue g) < 10 \<longrightarrow>
           Execute g i f =
             (g\<lparr>workQueue := workQueue g @ [\<lparr>act_id = i, doAction = f\<rparr>]\<rparr>,
              Some \<lparr>act_id = i, doAction = f\<rparr>))
        \<and> (isIDInWorkQueue g i \<or> 10 \<le> length (workQueue g) \<longrightarrow>
           Execute g i f =
             (g\<lparr>waitQueue := waitQueue g @ [\<lparr>act_id = i, doAction = f\<rparr>]\<rparr>, None)))
   \<and> ((\<forall>w \<in> set (waitQueue g). isIDInQueue (removeAt k (workQueue g)) (act_id w)) \<longrightarrow>
        processAction g k = (g\<lparr>workQueue := removeAt k (workQueue g)\<rparr>, None))
   \<and> (waitQueue g = pre @ a # post
        \<and> (\<forall>w \<in> set pre. isIDInQueue (removeAt k (workQueue g)) (act_id w))
        \<and> \<not> isIDInQueue (removeAt k (workQueue g)) (act_id a) \<longrightarrow>
        processAction g k =
          (g\<lparr>waitQueue := pre @ post, workQueue := removeAt k (workQueue g) @ [a]\<rparr>, Some a))"
proof (intro conjI impI)
  assume r: "handlerRun (New maxConcurrentActions) es = Some h"
  have "handlerInv (New maxConcurrentActions :: 'a Handler)"
    by (simp add: handlerInv_New maxConcurrentActions_def)
  from handlerInv_run [OF this r] max_run [OF r]
  have "distinct (map act_id (workQueue h))" "int (length (workQueue h)) \<le> 10"
    by (simp_all add: handlerInv_def New_def maxConcurrentActions_def)
  then show "distinct (map act_id (workQueue h))" "length (workQueue h) \<le> 10"
    by simp_all
next
  assume "h_maxConcurrentActions g = maxConcurrentActions"
    and "\<not> isIDInWorkQueue g i \<and> length (workQueue g) < 10"
  then show "Execute g i f =
      (g\<lparr>workQueue := workQueue g @ [\<lparr>act_id = i, doAction = f\<rparr>]\<rparr>,
       Some \<lparr>act_id = i, doAction = f\<rparr>)"
    by (simp add: Execute_def Let_def maxConcurrentActions_def)
next
  assume "h_maxConcurrentActions g = maxConcurrentActions"
    and "isIDInWorkQueue g i \<or> 10 \<le> length (workQueue g)"
  then show "Execute g i f =
      (g\<lparr>waitQueue := waitQueue g @ [\<lparr>act_id = i, doAction = f\<rparr>]\<rparr>, None)"
    by (auto simp: Execute_def Let_def maxConcurrentActions_def)
next
  assume "\<forall>w \<in> set (waitQueue g). isIDInQueue (removeAt k (workQueue g)) (act_id w)"
  then have "scanWaitQueue (removeAt k (workQueue g)) (waitQueue g) = None"
    by (simp add: scanWaitQueue_None)
  then show "processAction g k = (g\<lparr>workQueue := removeAt k (workQueue g)\<rparr>, None)"
    by (simp add: processAction_def)
next
  assume "waitQueue g = pre @ a # post
      \<and> (\<forall>w \<in> set pre. isIDInQueue (removeAt k (workQueue g)) (act_id w))
      \<and> \<not> isIDInQueue (removeAt k (workQueue g)) (act_id a)"
  then have "scanWaitQueue (removeAt k (workQueue g)) (waitQueue g) = Some (a, pre @ post)"
    by (simp add: scanWaitQueue_first)
  then show "processAction g k =
      (g\<lparr>waitQueue := pre @ post, workQueue := removeAt k (workQueue g) @ [a]\<rparr>, Some a)"
    by (simp add: processAction_def)
qed

text \<open>Sample actions and handler states for the policy: actions with ids \<open>a\<close>, \<open>b\<close>, \<open>c\<close>
  and closures that are numbered to tell two actions of one id apart.\<close>

definition actA :: "nat action" where "actA = \<lparr>act_id = ''a'', doAction = 1\<rparr>"
definition actA2 :: "nat action" where "actA2 = \<lparr>act_id = ''a'', doAction = 2\<rparr>"
definition actB :: "nat action" where "actB = \<lparr>act_id = ''b'', doAction = 3\<rparr>"
definition actC :: "nat action" where "actC = \<lparr>act_id = ''c'', doAction = 4\<rparr>"

definition handlerBusy :: "nat Handler" where
  "handlerBusy = \<lparr>h_maxConcurrentActions = 10, waitQueue = [actA2, actC], workQueue = [actB, actA]\<rparr>"

theorem action_handler_policy_witness:
  "handlerRun (New maxConcurrentActions) [Call ''a'' 1, Call ''a'' 2, Call ''b'' 3, Completed 0]
     = Some \<lparr>h_maxConcurrentActions = 10, waitQueue = [], workQueue = [actB, actA2]\<rparr>
   \<and> distinct (map act_id [actB, actA2])
   \<and> h_maxConcurrentActions handlerBusy = maxConcurrentActions
   \<and> \<not> isIDInWorkQueue handlerBusy ''c''
   \<and> Execute handlerBusy ''c'' 4
       = (handlerBusy\<lparr>workQueue := [actB, actA, actC]\<rparr>, Some actC)
   \<and> isIDInWorkQueue handlerBusy ''a''
   \<and> Execute handlerBusy ''a'' 1
       = (handlerBusy\<lparr>waitQueue := [actA2, actC, actA]\<rparr>, None)
   \<and> processAction handlerBusy 0
       = (handlerBusy\<lparr>waitQueue := [actA2], workQueue := [actA, actC]\<rparr>, Some actC)
   \<and> processAction (handlerBusy\<lparr>waitQueue := [actA2]\<rparr>) 0
       = (handlerBusy\<lparr>waitQueue := [actA2], workQueue := [actA]\<rparr>, None)"
  using action_handler_policy [of "[Call ''a'' 1, Call ''a'' 2, Call ''b'' 3, Completed 0]"
      "\<lparr>h_maxConcurrentActions = 10, waitQueue = [], workQueue = [actB, actA2]\<rparr>"
      handlerBusy "''c''" 4 0 "[actA2]" actC "[]"]
    action_handler_policy [of "[]" "New maxConcurrentActions" handlerBusy "''a''" 1 0 "[actA2]" actC "[]"]
    action_handler_policy [of "[]" "New maxConcurrentActions"
      "handlerBusy\<lparr>waitQueue := [actA2]\<rparr>" "''a''" 1 0 "[]" actA2 "[]"]
  by (simp add: actA_def actA2_def actB_def actC_def handlerBusy_def New_def
      maxConcurrentActions_def Execute_def Let_def processAction_def removeAt_def
      isIDInWorkQueue_def)

section \<open>Software manager: data\<close>

text \<open>
  A Go slice is \<open>nil\<close> or holds elements, and \<open>reflect.DeepEqual\<close> tells a \<open>nil\<close> slice
  from an empty one. The slices that \<open>newUpdate\<close> compares are therefore optional lists:
  \<open>None\<close> is the \<open>nil\<close> slice. A \<open>range\<close> loop and \<open>len\<close> see only the elements, and
  \<open>append\<close> always returns a slice that is not \<open>nil\<close>.
\<close>

type_synonym 'a slice = "'a list option"

definition elems :: "'a slice \<Rightarrow> 'a list" where
  "elems s = (case s of None \<Rightarrow> [] | Some xs \<Rightarrow> xs)"

definition append_slice :: "'a slice \<Rightarrow> 'a \<Rightarrow> 'a slice" where
  "append_slice s x = Some (elems s @ [x])"

record DecryptDataStruct =
  dd_URLs :: "string slice"
  dd_Sha256 :: "8 word slice"
  dd_Sha512 :: "8 word slice"
  dd_Size :: "64 word"

record ServiceInfoFromCloud =
  sfc_ID :: string
  sfc_AosVersion :: "64 word"
  sfc_DecryptDataStruct :: DecryptDataStruct

record LayerInfoFromCloud =
  lfc_ID :: string
  lfc_Digest :: string
  lfc_AosVersion :: "64 word"
  lfc_DecryptDataStruct :: DecryptDataStruct

text \<open>Modelled from the spec: the schedule rule of \<open>cloudprotocol\<close> (section "Schedule
  format"): a type, a TTL in seconds and an optional timetable of day and time window.\<close>

record TimetableEntry =
  te_DayOfWeek :: nat
  te_Start :: string
  te_Finish :: string

record ScheduleRule =
  sr_TTL :: "64 word"
  sr_Type :: string
  sr_Timetable :: "TimetableEntry slice"

definition ForceUpdate :: string where "ForceUpdate = ''force''"
definition TriggerUpdate :: string where "TriggerUpdate = ''trigger''"
definition TimetableUpdate :: string where "TimetableUpdate = ''timetable''"

text \<open>Certificates and chains are only handed on to the downloader.\<close>

typedecl CertificateChain
typedecl Certificate

record softwareUpdate =
  Schedule :: ScheduleRule
  DownloadServices :: "ServiceInfoFromCloud slice"
  InstallServices :: "ServiceInfoFromCloud slice"
  RemoveServices :: "ServiceInfo slice"
  DownloadLayers :: "LayerInfoFromCloud slice"
  InstallLayers :: "LayerInfoFromCloud slice"
  RemoveLayers :: "LayerInfo slice"
  CertChains :: "CertificateChain list"
  Certs :: "Certificate list"

record downloadResult =
  dr_FileName :: string
  dr_Size :: "64 word"
  dr_Sha256 :: "8 word slice"
  dr_Sha512 :: "8 word slice"
  dr_Error :: string

text \<open>Modelled from the spec: the names of the update states and events (section "Generic
  Update State Machine"); the constants are declared with the update state machine, which
  is not among the sources.\<close>

definition stateNoUpdate :: string where "stateNoUpdate = ''noUpdate''"
definition stateDownloading :: string where "stateDownloading = ''downloading''"
definition stateReadyToUpdate :: string where "stateReadyToUpdate = ''readyToUpdate''"
definition stateUpdating :: string where "stateUpdating = ''updating''"

definition eventStartDownload :: string where "eventStartDownload = ''startDownload''"
definition eventFinishDownload :: string where "eventFinishDownload = ''finishDownload''"
definition eventStartUpdate :: string where "eventStartUpdate = ''startUpdate''"
definition eventFinishUpdate :: string where "eventFinishUpdate = ''finishUpdate''"
definition eventCancel :: string where "eventCancel = ''cancel''"

lemmas state_defs = stateNoUpdate_def stateDownloading_def stateReadyToUpdate_def
  stateUpdating_def

lemmas event_defs = eventStartDownload_def eventFinishDownload_def eventStartUpdate_def
  eventFinishUpdate_def eventCancel_def

text \<open>
  A Go map is \<open>nil\<close> or holds entries: \<open>None\<close> is the \<open>nil\<close> map, which reads as an
  empty map and panics when a key is assigned. The entries are an association list in
  some iteration order with one entry per key. The values of the status maps are pointers
  that are written through: the entry is replaced where it stands.
\<close>

type_synonym ('k, 'v) gomap = "('k \<times> 'v) list option"

definition entries :: "('k, 'v) gomap \<Rightarrow> ('k \<times> 'v) list" where
  "entries m = (case m of None \<Rightarrow> [] | Some xs \<Rightarrow> xs)"

definition lookup :: "('k, 'v) gomap \<Rightarrow> 'k \<Rightarrow> 'v option" where
  "lookup m k = map_of (entries m) k"

text \<open>Assignment to a key of a map that holds entries: the entry of the key is replaced,
  a new key gets a new entry.\<close>

fun mapStore :: "'k \<Rightarrow> 'v \<Rightarrow> ('k \<times> 'v) list \<Rightarrow> ('k \<times> 'v) list" where
  "mapStore k v [] = [(k, v)]"
| "mapStore k v (p # ps) = (if fst p = k then (k, v) # ps else p # mapStore k v ps)"

text \<open>
  The manager's fields that the functions below read or write. The download results are
  only read. \<open>TTLDate\<close> is a point in time, a number here.
\<close>

record softwareManager =
  pendingUpdate :: "softwareUpdate option"
  currentUsers :: "string slice"
  LayerStatuses :: "(string, LayerInfo) gomap"
  ServiceStatuses :: "(string, ServiceInfo) gomap"
  CurrentUpdate :: "softwareUpdate option"
  DownloadResult :: "(string \<times> downloadResult) list"
  CurrentState :: string
  UpdateErr :: string
  TTLDate :: nat

datatype UpdateState = NoUpdate | Downloading | ReadyToUpdate | Updating

record UpdateSOTAStatus =
  sota_State :: UpdateState
  sota_Error :: string
  sota_InstallServices :: "ServiceInfo list"
  sota_RemoveServices :: "ServiceInfo list"
  sota_InstallLayers :: "LayerInfo list"
  sota_RemoveLayers :: "LayerInfo list"

text \<open>Modelled from the spec: \<open>convertState\<close> (not among the sources) takes the state name
  to the state broadcast on the status channel, \<open>noUpdate | downloading | readyToUpdate |
  updating\<close>; any other name is no update.\<close>

definition convertState :: "string \<Rightarrow> UpdateState" where
  "convertState state =
     (if state = stateDownloading then Downloading
      else if state = stateReadyToUpdate then ReadyToUpdate
      else if state = stateUpdating then Updating
      else NoUpdate)"

section \<open>Software manager: the current status\<close>

text \<open>The composite literals of \<open>getCurrentStatus\<close>: the fields not named are zero.\<close>

definition layerEntry :: "string \<Rightarrow> string \<Rightarrow> 64 word \<Rightarrow> LayerInfo" where
  "layerEntry i digest version =
     \<lparr>li_ID = i, li_AosVersion = version, li_Digest = digest, li_Status = [], li_Error = []\<rparr>"

definition serviceEntry :: "string \<Rightarrow> 64 word \<Rightarrow> ServiceInfo" where
  "serviceEntry i version =
     \<lparr>si_ID = i, si_AosVersion = version, si_Status = [], si_Error = [], si_StateChecksum = []\<rparr>"

text \<open>
  The six loops of \<open>getCurrentStatus\<close>, in the order of the source. Each assigns to a
  field of \<open>status\<close> the result of \<open>append\<close>; the third loop assigns to \<open>RemoveLayers\<close> the
  result of appending to \<open>InstallLayers\<close>, as the source has it. The status lists start
  \<open>nil\<close> and nothing tells \<open>nil\<close> from empty there, so they are lists.
\<close>

definition getCurrentStatus :: "softwareManager \<Rightarrow> UpdateSOTAStatus" where
  "getCurrentStatus manager =
     (let status = \<lparr>sota_State = convertState (CurrentState manager),
                     sota_Error = UpdateErr manager,
                     sota_InstallServices = [], sota_RemoveServices = [],
                     sota_InstallLayers = [], sota_RemoveLayers = []\<rparr>
      in case CurrentUpdate manager of
           None \<Rightarrow> status
         | Some current \<Rightarrow>
             if sota_State status = NoUpdate then status
             else
               let status = foldl (\<lambda>st layer. st\<lparr>sota_InstallLayers := sota_InstallLayers st
                      @ [layerEntry (lfc_ID layer) (lfc_Digest layer) (lfc_AosVersion layer)]\<rparr>)
                    status (elems (DownloadLayers current));
                   status = foldl (\<lambda>st layer. st\<lparr>sota_InstallLayers := sota_InstallLayers st
                      @ [layerEntry (lfc_ID layer) (lfc_Digest layer) (lfc_AosVersion layer)]\<rparr>)
                    status (elems (InstallLayers current));
                   status = foldl (\<lambda>st layer. st\<lparr>sota_RemoveLayers := sota_InstallLayers st
                      @ [layerEntry (li_ID layer) (li_Digest layer) (li_AosVersion layer)]\<rparr>)
                    status (elems (RemoveLayers current));
                   status = foldl (\<lambda>st service. st\<lparr>sota_InstallServices := sota_InstallServices st
                      @ [serviceEntry (sfc_ID service) (sfc_AosVersion service)]\<rparr>)
                    status (elems (DownloadServices current));
                   status = foldl (\<lambda>st service. st\<lparr>sota_InstallServices := sota_InstallServices st
                      @ [serviceEntry (sfc_ID service) (sfc_AosVersion service)]\<rparr>)
                    status (elems (InstallServices current));
                   status = foldl (\<lambda>st service. st\<lparr>sota_RemoveServices := sota_RemoveServices st
                      @ [serviceEntry (si_ID service) (si_AosVersion service)]\<rparr>)
                    status (elems (RemoveServices current))
               in status)"

text \<open>What the loops of \<open>getCurrentStatus\<close> make of the layers of an active update: the
  remove list is the install list followed by the last layer to remove, or empty when
  there is none to remove.\<close>

lemma foldl_install_layers:
  "foldl (\<lambda>st layer. st\<lparr>sota_InstallLayers := sota_InstallLayers st @ [f layer]\<rparr>) st xs
     = st\<lparr>sota_InstallLayers := sota_InstallLayers st @ map f xs\<rparr>"
  by (induction xs arbitrary: st) simp_all

lemma foldl_remove_layers:
  "foldl (\<lambda>st layer. st\<lparr>sota_RemoveLayers := sota_InstallLayers st @ [f layer]\<rparr>) st xs
     = (if xs = [] then st else st\<lparr>sota_RemoveLayers := sota_InstallLayers st @ [f (last xs)]\<rparr>)"
  by (induction xs arbitrary: st) simp_all

lemma foldl_install_services:
  "foldl (\<lambda>st service. st\<lparr>sota_InstallServices := sota_InstallServices st @ [f service]\<rparr>) st xs
     = st\<lparr>sota_InstallServices := sota_InstallServices st @ map f xs\<rparr>"
  by (induction xs arbitrary: st) simp_all

lemma foldl_remove_services:
  "foldl (\<lambda>st service. st\<lparr>sota_RemoveServices := sota_RemoveServices st @ [f service]\<rparr>) st xs
     = st\<lparr>sota_RemoveServices := sota_RemoveServices st @ map f xs\<rparr>"
  by (induction xs arbitrary: st) simp_all

lemma getCurrentStatus_layers:
  assumes "CurrentUpdate manager = Some current"
    and "convertState (CurrentState manager) \<noteq> NoUpdate"
  shows "sota_InstallLayers (getCurrentStatus manager)
      = map (\<lambda>layer. layerEntry (lfc_ID layer) (lfc_Digest layer) (lfc_AosVersion layer))
          (elems (DownloadLayers current) @ elems (InstallLayers current))"
    and "sota_RemoveLayers (getCurrentStatus manager)
      = (if elems (RemoveLayers current) = [] then []
         else map (\<lambda>layer. layerEntry (lfc_ID layer) (lfc_Digest layer) (lfc_AosVersion layer))
                (elems (DownloadLayers current) @ elems (InstallLayers current))
              @ [layerEntry (li_ID (last (elems (RemoveLayers current))))
                   (li_Digest (last (elems (RemoveLayers current))))
                   (li_AosVersion (last (elems (RemoveLayers current))))])"
  using assms
  by (simp_all add: getCurrentStatus_def Let_def foldl_install_layers foldl_remove_layers
      foldl_install_services foldl_remove_services)

text \<open>A sample update in the downloading state: one layer to download, two to remove.\<close>

definition noDecrypt :: DecryptDataStruct where
  "noDecrypt = \<lparr>dd_URLs = None, dd_Sha256 = None, dd_Sha512 = None, dd_Size = 0\<rparr>"

definition forceSchedule :: ScheduleRule where
  "forceSchedule = \<lparr>sr_TTL = 0, sr_Type = ''force'', sr_Timetable = None\<rparr>"

definition layerL1 :: LayerInfoFromCloud where
  "layerL1 = \<lparr>lfc_ID = ''L1'', lfc_Digest = ''sha256:1'', lfc_AosVersion = 1,
     lfc_DecryptDataStruct = noDecrypt\<rparr>"

definition layerR1 :: LayerInfo where
  "layerR1 = \<lparr>li_ID = ''R1'', li_AosVersion = 1, li_Digest = ''sha256:2'',
     li_Status = ''installed'', li_Error = []\<rparr>"

definition layerR2 :: LayerInfo where
  "layerR2 = \<lparr>li_ID = ''R2'', li_AosVersion = 1, li_Digest = ''sha256:3'',
     li_Status = ''installed'', li_Error = []\<rparr>"

definition layersUpdate :: softwareUpdate where
  "layersUpdate = \<lparr>Schedule = forceSchedule,
     DownloadServices = Some [], InstallServices = Some [], RemoveServices = Some [],
     DownloadLayers = Some [layerL1], InstallLayers = Some [],
     RemoveLayers = Some [layerR1, layerR2], CertChains = [], Certs = []\<rparr>"

definition layersManager :: softwareManager where
  "layersManager = \<lparr>pendingUpdate = None, currentUsers = None, LayerStatuses = None,
     ServiceStatuses = None, CurrentUpdate = Some layersUpdate, DownloadResult = [],
     CurrentState = ''downloading'', UpdateErr = [], TTLDate = 0\<rparr>"

text \<open>
  Claim C4 fails on the code. With one layer to download and two layers to remove, the
  status built by \<open>getCurrentStatus\<close> lists as remove-layers the download layer and the
  second remove-layer only: the first remove-layer is lost and an install layer stands in
  the remove list. The claim asks for exactly the two remove-layers.
\<close>

theorem getCurrentStatus_RemoveLayers_at_failing_input:
  "sota_State (getCurrentStatus layersManager) = Downloading
   \<and> sota_InstallLayers (getCurrentStatus layersManager) = [layerEntry ''L1'' ''sha256:1'' 1]
   \<and> sota_RemoveLayers (getCurrentStatus layersManager)
       = [layerEntry ''L1'' ''sha256:1'' 1, layerEntry ''R2'' ''sha256:3'' 1]
   \<and> sota_RemoveLayers (getCurrentStatus layersManager)
       \<noteq> [layerEntry ''R1'' ''sha256:2'' 1, layerEntry ''R2'' ''sha256:3'' 1]"
  by (simp add: getCurrentStatus_def layersManager_def layersUpdate_def layerL1_def
      layerR1_def layerR2_def layerEntry_def convertState_def state_defs elems_def)

section \<open>Software manager: a new update\<close>

text \<open>
  The update state machine is not among the sources. A call of one of its methods is
  recorded as an effect, in the order of the calls; what the method returns is an input of
  the model. What the state machine calls back on the manager during \<open>sendEvent\<close>
  (\<open>stateChanged\<close>, the state callbacks) are steps of their own, modelled further below.
  An error is a value: \<open>aoserrors.Wrap\<close> adds the place of the call to its message and
  keeps the error, so a wrapped error is the error.
\<close>

datatype smCall =
    StartNewUpdate "64 word"
  | ScheduleUpdate ScheduleRule
  | SendEvent string string

datatype swError =
    WrongUpdateType
  | TimetableError string
  | StateMachineError string
  | UpdaterError string

datatype panic = NilDereference | NilMapWrite | IndexOutOfRange

text \<open>The transitions given to \<open>newUpdateStateMachine\<close> by \<open>newSoftwareManager\<close>: event,
  source states, destination.\<close>

definition softwareTransitions :: "(string \<times> string list \<times> string) list" where
  "softwareTransitions =
     [(eventStartDownload, [stateNoUpdate], stateDownloading),
      (eventFinishDownload, [stateDownloading], stateReadyToUpdate),
      (eventCancel, [stateDownloading], stateNoUpdate),
      (eventCancel, [stateReadyToUpdate], stateNoUpdate),
      (eventStartUpdate, [stateReadyToUpdate], stateUpdating),
      (eventFinishUpdate, [stateUpdating], stateNoUpdate),
      (eventCancel, [stateUpdating], stateNoUpdate)]"

text \<open>Modelled from the spec: \<open>canTransit\<close> of the update state machine (not among the
  sources): an event is accepted in a state when the table has a transition for it from
  that state. The state machine's state is the manager's \<open>CurrentState\<close>, which
  \<open>stateChanged\<close> keeps equal to it.\<close>

definition canTransit :: "string \<Rightarrow> string \<Rightarrow> bool" where
  "canTransit state event =
     list_ex (\<lambda>(name, srcs, dst). name = event \<and> state \<in> set srcs) softwareTransitions"

text \<open>The first \<open>switch\<close> of \<open>newUpdate\<close>: the default schedule type is set in the update
  itself. \<open>validateTimetable\<close> is not among the sources and is a parameter; it returns the
  error's message, if any.\<close>

definition checkSchedule ::
  "(TimetableEntry slice \<Rightarrow> string option) \<Rightarrow> softwareUpdate \<Rightarrow> swError + softwareUpdate" where
  "checkSchedule validateTimetable update =
     (if sr_Type (Schedule update) = []
      then Inr (update\<lparr>Schedule := (Schedule update)\<lparr>sr_Type := ForceUpdate\<rparr>\<rparr>)
      else if sr_Type (Schedule update) = TimetableUpdate
      then (case validateTimetable (sr_Timetable (Schedule update)) of
              Some err \<Rightarrow> Inl (TimetableError err)
            | None \<Rightarrow> Inr update)
      else if sr_Type (Schedule update) = ForceUpdate \<or> sr_Type (Schedule update) = TriggerUpdate
      then Inr update
      else Inl WrongUpdateType)"

text \<open>\<open>time.Duration(TTL) * time.Second\<close> in 64 bits.\<close>

definition ttlDuration :: "softwareUpdate \<Rightarrow> 64 word" where
  "ttlDuration update = sr_TTL (Schedule update) * 1000000000"

text \<open>
  \<open>newUpdate\<close>. \<open>ttlDate\<close> is the date \<open>startNewUpdate\<close> returns, \<open>smErr\<close> the error of the
  state machine call made, if any. The result is a panic (the dereference of a \<open>nil\<close>
  current update in a state other than no update), or the returned error, the manager
  and the calls made.
\<close>

definition newUpdate ::
  "(TimetableEntry slice \<Rightarrow> string option) \<Rightarrow> nat \<Rightarrow> string option \<Rightarrow> softwareManager \<Rightarrow>
   softwareUpdate \<Rightarrow> panic + (swError option \<times> softwareManager \<times> smCall list)" where
  "newUpdate validateTimetable ttlDate smErr manager update0 =
     (case checkSchedule validateTimetable update0 of
        Inl err \<Rightarrow> Inr (Some err, manager, [])
      | Inr update \<Rightarrow>
          if CurrentState manager = stateNoUpdate
          then Inr (map_option StateMachineError smErr,
                    manager\<lparr>CurrentUpdate := Some update, TTLDate := ttlDate\<rparr>,
                    [StartNewUpdate (ttlDuration update)])
          else
            (case CurrentUpdate manager of
               None \<Rightarrow> Inl NilDereference
             | Some current \<Rightarrow>
                 let stash =
                   (if \<not> canTransit (CurrentState manager) eventCancel
                    then Inr (None, manager\<lparr>pendingUpdate := Some update\<rparr>, [])
                    else Inr (map_option StateMachineError smErr,
                              manager\<lparr>pendingUpdate := Some update\<rparr>,
                              [SendEvent eventCancel []]))
                 in
                 if InstallLayers update = InstallLayers current
                    \<and> RemoveLayers update = RemoveLayers current
                    \<and> InstallServices update = InstallServices current
                    \<and> RemoveServices update = RemoveServices current
                 then
                   if Schedule update = Schedule current
                   then Inr (None, manager, [])
                   else if CurrentState manager = stateReadyToUpdate
                      \<and> sr_Type (Schedule current) \<noteq> ForceUpdate
                   then Inr (None,
                             manager\<lparr>CurrentUpdate := Some (current\<lparr>Schedule := Schedule update\<rparr>)\<rparr>,
                             [ScheduleUpdate (Schedule update)])
                   else stash
                 else stash))"

section \<open>Software manager: the desired status\<close>

record DecodedDesiredStatus =
  ds_SOTASchedule :: ScheduleRule
  ds_Services :: "ServiceInfoFromCloud list"
  ds_Layers :: "LayerInfoFromCloud list"
  ds_CertificateChains :: "CertificateChain list"
  ds_Certificates :: "Certificate list"

text \<open>The conditions of the inner loops of \<open>processDesiredStatus\<close>.\<close>

definition sameInstalledService :: "ServiceInfoFromCloud \<Rightarrow> ServiceInfo \<Rightarrow> bool" where
  "sameInstalledService desiredService service =
     (sfc_ID desiredService = si_ID service
      \<and> sfc_AosVersion desiredService = si_AosVersion service
      \<and> si_Status service = InstalledStatus)"

definition sameInstalledLayer :: "LayerInfoFromCloud \<Rightarrow> LayerInfo \<Rightarrow> bool" where
  "sameInstalledLayer desiredLayer layer =
     (lfc_Digest desiredLayer = li_Digest layer \<and> li_Status layer = InstalledStatus)"

fun desiredServicesLoop ::
  "ServiceInfo list \<Rightarrow> ServiceInfo list \<Rightarrow> ServiceInfoFromCloud list \<Rightarrow> softwareUpdate \<Rightarrow> softwareUpdate" where
  "desiredServicesLoop usersServices allServices [] update = update"
| "desiredServicesLoop usersServices allServices (desiredService # rest) update =
     (if list_ex (sameInstalledService desiredService) usersServices
      then desiredServicesLoop usersServices allServices rest update
      else if list_ex (sameInstalledService desiredService) allServices
      then desiredServicesLoop usersServices allServices rest
             (update\<lparr>InstallServices := append_slice (InstallServices update) desiredService\<rparr>)
      else desiredServicesLoop usersServices allServices rest
             (update\<lparr>DownloadServices := append_slice (DownloadServices update) desiredService\<rparr>))"

fun usersServicesLoop ::
  "ServiceInfoFromCloud list \<Rightarrow> ServiceInfo list \<Rightarrow> softwareUpdate \<Rightarrow> softwareUpdate" where
  "usersServicesLoop desiredServices [] update = update"
| "usersServicesLoop desiredServices (usersService # rest) update =
     (if si_Status usersService \<noteq> InstalledStatus
      then usersServicesLoop desiredServices rest update
      else if list_ex (\<lambda>desiredService. si_ID usersService = sfc_ID desiredService) desiredServices
      then usersServicesLoop desiredServices rest update
      else usersServicesLoop desiredServices rest
             (update\<lparr>RemoveServices := append_slice (RemoveServices update) usersService\<rparr>))"

fun desiredLayersLoop ::
  "LayerInfo list \<Rightarrow> LayerInfo list \<Rightarrow> LayerInfoFromCloud list \<Rightarrow> softwareUpdate \<Rightarrow> softwareUpdate" where
  "desiredLayersLoop usersLayers allLayers [] update = update"
| "desiredLayersLoop usersLayers allLayers (desiredLayer # rest) update =
     (if list_ex (sameInstalledLayer desiredLayer) usersLayers
      then desiredLayersLoop usersLayers allLayers rest update
      else if list_ex (sameInstalledLayer desiredLayer) allLayers
      then desiredLayersLoop usersLayers allLayers rest
             (update\<lparr>InstallLayers := append_slice (InstallLayers update) desiredLayer\<rparr>)
      else desiredLayersLoop usersLayers allLayers rest
             (update\<lparr>DownloadLayers := append_slice (DownloadLayers update) desiredLayer\<rparr>))"

fun usersLayersLoop ::
  "LayerInfoFromCloud list \<Rightarrow> LayerInfo list \<Rightarrow> softwareUpdate \<Rightarrow> softwareUpdate" where
  "usersLayersLoop desiredLayers [] update = update"
| "usersLayersLoop desiredLayers (installedLayer # rest) update =
     (if li_Status installedLayer \<noteq> InstalledStatus
      then usersLayersLoop desiredLayers rest update
      else if list_ex (\<lambda>desiredLayer. li_Digest installedLayer = lfc_Digest desiredLayer) desiredLayers
      then usersLayersLoop desiredLayers rest update
      else usersLayersLoop desiredLayers rest
             (update\<lparr>RemoveLayers := append_slice (RemoveLayers update) installedLayer\<rparr>))"

text \<open>The update that \<open>processDesiredStatus\<close> builds from the desired status, the status
  for the current users and the status of everything installed: the composite literal
  with its six empty slices, then the four loops.\<close>

definition desiredUpdate ::
  "DecodedDesiredStatus \<Rightarrow> ServiceInfo list \<Rightarrow> LayerInfo list \<Rightarrow> ServiceInfo list \<Rightarrow>
   LayerInfo list \<Rightarrow> softwareUpdate" where
  "desiredUpdate desiredStatus usersServices usersLayers allServices allLayers =
     (let update = \<lparr>Schedule = ds_SOTASchedule desiredStatus,
                     DownloadServices = Some [], InstallServices = Some [],
                     RemoveServices = Some [], DownloadLayers = Some [],
                     InstallLayers = Some [], RemoveLayers = Some [],
                     CertChains = ds_CertificateChains desiredStatus,
                     Certs = ds_Certificates desiredStatus\<rparr>;
          update = desiredServicesLoop usersServices allServices (ds_Services desiredStatus) update;
          update = usersServicesLoop (ds_Services desiredStatus) usersServices update;
          update = desiredLayersLoop usersLayers allLayers (ds_Layers desiredStatus) update;
          update = usersLayersLoop (ds_Layers desiredStatus) usersLayers update
      in update)"

text \<open>\<open>processDesiredStatus\<close>: \<open>usersStatus\<close> and \<open>allStatus\<close> are what \<open>GetUsersStatus\<close> for
  the current users and \<open>GetAllStatus\<close> return, an error message or services and layers.\<close>

definition processDesiredStatus ::
  "(TimetableEntry slice \<Rightarrow> string option) \<Rightarrow> nat \<Rightarrow> string option \<Rightarrow>
   string + (ServiceInfo list \<times> LayerInfo list) \<Rightarrow> string + (ServiceInfo list \<times> LayerInfo list) \<Rightarrow>
   softwareManager \<Rightarrow> DecodedDesiredStatus \<Rightarrow>
   panic + (swError option \<times> softwareManager \<times> smCall list)" where
  "processDesiredStatus validateTimetable ttlDate smErr usersStatus allStatus manager desiredStatus =
     (case usersStatus of
        Inl err \<Rightarrow> Inr (Some (UpdaterError err), manager, [])
      | Inr (usersServices, usersLayers) \<Rightarrow>
          (case allStatus of
             Inl err \<Rightarrow> Inr (Some (UpdaterError err), manager, [])
           | Inr (allServices, allLayers) \<Rightarrow>
               let update = desiredUpdate desiredStatus usersServices usersLayers allServices allLayers
               in if length (elems (DownloadServices update)) \<noteq> 0
                     \<or> length (elems (InstallServices update)) \<noteq> 0
                     \<or> length (elems (RemoveServices update)) \<noteq> 0
                     \<or> length (elems (DownloadLayers update)) \<noteq> 0
                     \<or> length (elems (InstallLayers update)) \<noteq> 0
                     \<or> length (elems (RemoveLayers update)) \<noteq> 0
                  then newUpdate validateTimetable ttlDate smErr manager update
                  else Inr (None, manager, [])))"

section \<open>Software manager: properties of a new update\<close>

lemma checkSchedule_lists:
  "checkSchedule v B0 = Inr B \<Longrightarrow>
   InstallLayers B = InstallLayers B0 \<and> RemoveLayers B = RemoveLayers B0
   \<and> InstallServices B = InstallServices B0 \<and> RemoveServices B = RemoveServices B0"
  by (auto simp: checkSchedule_def split: if_splits option.splits)

text \<open>Two sample updates with the same services to install, in the other order, and
  managers that hold the first as the current update.\<close>

definition svcX :: ServiceInfoFromCloud where
  "svcX = \<lparr>sfc_ID = ''svcX'', sfc_AosVersion = 2, sfc_DecryptDataStruct = noDecrypt\<rparr>"

definition svcY :: ServiceInfoFromCloud where
  "svcY = \<lparr>sfc_ID = ''svcY'', sfc_AosVersion = 1, sfc_DecryptDataStruct = noDecrypt\<rparr>"

definition triggerSchedule :: ScheduleRule where
  "triggerSchedule = \<lparr>sr_TTL = 30, sr_Type = ''trigger'', sr_Timetable = None\<rparr>"

definition updA :: softwareUpdate where
  "updA = \<lparr>Schedule = triggerSchedule,
     DownloadServices = Some [], InstallServices = Some [svcX, svcY], RemoveServices = Some [],
     DownloadLayers = Some [], InstallLayers = Some [], RemoveLayers = Some [],
     CertChains = [], Certs = []\<rparr>"

definition updB :: softwareUpdate where
  "updB = updA\<lparr>Schedule := forceSchedule, InstallServices := Some [svcY, svcX]\<rparr>"

definition mgrReady :: softwareManager where
  "mgrReady = \<lparr>pendingUpdate = None, currentUsers = None, LayerStatuses = Some [],
     ServiceStatuses = Some [], CurrentUpdate = Some updA, DownloadResult = [],
     CurrentState = ''readyToUpdate'', UpdateErr = [], TTLDate = 0\<rparr>"

definition mgrDownloading :: softwareManager where
  "mgrDownloading = mgrReady\<lparr>CurrentState := ''downloading''\<rparr>"

lemmas sample_update_defs = svcX_def svcY_def triggerSchedule_def forceSchedule_def updA_def
  updB_def mgrReady_def mgrDownloading_def noDecrypt_def

text \<open>
  Claim C2 fails on the code in two ways. The lists are compared with
  \<open>reflect.DeepEqual\<close>, so with the same services in another order the update in the
  ready state is not rescheduled: the new update becomes pending and a cancel is sent.
  And a new update that equals the current one, schedule included, is dropped in every
  active state: it does not become pending.
\<close>

theorem newUpdate_set_equal_counterexample:
  "set (elems (InstallLayers updB)) = set (elems (InstallLayers updA))
   \<and> set (elems (RemoveLayers updB)) = set (elems (RemoveLayers updA))
   \<and> set (elems (InstallServices updB)) = set (elems (InstallServices updA))
   \<and> set (elems (RemoveServices updB)) = set (elems (RemoveServices updA))
   \<and> CurrentUpdate mgrReady = Some updA
   \<and> CurrentState mgrReady = stateReadyToUpdate
   \<and> sr_Type (Schedule updA) \<noteq> ForceUpdate
   \<and> newUpdate (\<lambda>t. None) 0 None mgrReady updB
       = Inr (None, mgrReady\<lparr>pendingUpdate := Some updB\<rparr>, [SendEvent eventCancel []])
   \<and> CurrentUpdate mgrDownloading = Some updA
   \<and> CurrentState mgrDownloading = stateDownloading
   \<and> newUpdate (\<lambda>t. None) 0 None mgrDownloading updA = Inr (None, mgrDownloading, [])
   \<and> pendingUpdate mgrDownloading = None"
  by (simp add: sample_update_defs newUpdate_def checkSchedule_def canTransit_def
      softwareTransitions_def state_defs event_defs ForceUpdate_def TriggerUpdate_def
      TimetableUpdate_def elems_def insert_commute)

text \<open>
  Claim C2 as amended. Let A be the current update in a state other than no update, and
  B a new update that passes the schedule check and whose install and remove lists of
  layers and services are deeply equal to those of A (the same elements in the same
  order). When B's schedule equals A's nothing changes. Otherwise, when the state is
  \<open>readyToUpdate\<close> and A's schedule type is not \<open>force\<close>, A stays current with its schedule
  replaced by B's, the state machine is asked to schedule it and B does not become
  pending. Otherwise B is stashed as the pending update, and \<open>cancel\<close> is sent exactly when
  the state accepts it.
\<close>

theorem newUpdate_deep_equal_lists:
  assumes "CurrentState manager \<noteq> stateNoUpdate"
    and "CurrentUpdate manager = Some A"
    and "checkSchedule validateTimetable B0 = Inr B"
    and "InstallLayers B0 = InstallLayers A" and "RemoveLayers B0 = RemoveLayers A"
    and "InstallServices B0 = InstallServices A" and "RemoveServices B0 = RemoveServices A"
  shows "(Schedule B = Schedule A \<longrightarrow>
            newUpdate validateTimetable ttlDate smErr manager B0 = Inr (None, manager, []))
     \<and> (Schedule B \<noteq> Schedule A \<and> CurrentState manager = stateReadyToUpdate
          \<and> sr_Type (Schedule A) \<noteq> ForceUpdate \<longrightarrow>
            newUpdate validateTimetable ttlDate smErr manager B0
              = Inr (None, manager\<lparr>CurrentUpdate := Some (A\<lparr>Schedule := Schedule B\<rparr>)\<rparr>,
                     [ScheduleUpdate (Schedule B)]))
     \<and> (Schedule B \<noteq> Schedule A
          \<and> (CurrentState manager \<noteq> stateReadyToUpdate \<or> sr_Type (Schedule A) = ForceUpdate) \<longrightarrow>
            newUpdate validateTimetable ttlDate smErr manager B0
              = (if canTransit (CurrentState manager) eventCancel
                 then Inr (map_option StateMachineError smErr,
                           manager\<lparr>pendingUpdate := Some B\<rparr>, [SendEvent eventCancel []])
                 else Inr (None, manager\<lparr>pendingUpdate := Some B\<rparr>, [])))"
proof -
  from checkSchedule_lists [OF assms(3)] assms(4-7)
  have eq: "InstallLayers B = InstallLayers A" "RemoveLayers B = RemoveLayers A"
    "InstallServices B = InstallServices A" "RemoveServices B = RemoveServices A"
    by simp_all
  show ?thesis
    using assms(1-3) eq by (auto simp: newUpdate_def Let_def)
qed

theorem newUpdate_deep_equal_lists_witness:
  "CurrentState mgrReady \<noteq> stateNoUpdate
   \<and> CurrentUpdate mgrReady = Some updA
   \<and> checkSchedule (\<lambda>t. None) (updA\<lparr>Schedule := forceSchedule\<rparr>) = Inr (updA\<lparr>Schedule := forceSchedule\<rparr>)
   \<and> Schedule (updA\<lparr>Schedule := forceSchedule\<rparr>) \<noteq> Schedule updA
   \<and> CurrentState mgrReady = stateReadyToUpdate
   \<and> sr_Type (Schedule updA) \<noteq> ForceUpdate
   \<and> newUpdate (\<lambda>t. None) 0 None mgrReady (updA\<lparr>Schedule := forceSchedule\<rparr>)
       = Inr (None, mgrReady\<lparr>CurrentUpdate := Some (updA\<lparr>Schedule := forceSchedule\<rparr>)\<rparr>,
              [ScheduleUpdate forceSchedule])
   \<and> checkSchedule (\<lambda>t. None) updA = Inr updA
   \<and> newUpdate (\<lambda>t. None) 0 None mgrReady updA = Inr (None, mgrReady, [])
   \<and> CurrentState mgrDownloading \<noteq> stateReadyToUpdate
   \<and> canTransit (CurrentState mgrDownloading) eventCancel
   \<and> newUpdate (\<lambda>t. None) 0 None mgrDownloading (updA\<lparr>Schedule := forceSchedule\<rparr>)
       = Inr (None, mgrDownloading\<lparr>pendingUpdate := Some (updA\<lparr>Schedule := forceSchedule\<rparr>)\<rparr>,
              [SendEvent eventCancel []])"
  using newUpdate_deep_equal_lists [of mgrReady updA "\<lambda>t. None" "updA\<lparr>Schedule := forceSchedule\<rparr>"
      "updA\<lparr>Schedule := forceSchedule\<rparr>" 0 None]
    newUpdate_deep_equal_lists [of mgrReady updA "\<lambda>t. None" updA updA 0 None]
    newUpdate_deep_equal_lists [of mgrDownloading updA "\<lambda>t. None" "updA\<lparr>Schedule := forceSchedule\<rparr>"
      "updA\<lparr>Schedule := forceSchedule\<rparr>" 0 None]
  by (simp add: sample_update_defs checkSchedule_def canTransit_def
      softwareTransitions_def state_defs event_defs ForceUpdate_def TriggerUpdate_def
      TimetableUpdate_def)

section \<open>Software manager: properties of the desired status\<close>

lemma desiredServicesLoop_eq:
  "InstallServices u = Some xs \<Longrightarrow> DownloadServices u = Some ys \<Longrightarrow>
   desiredServicesLoop us al ds u =
     u\<lparr>InstallServices := Some (xs @ [d \<leftarrow> ds. \<not> list_ex (sameInstalledService d) us
                                         \<and> list_ex (sameInstalledService d) al]),
       DownloadServices := Some (ys @ [d \<leftarrow> ds. \<not> list_ex (sameInstalledService d) us
                                         \<and> \<not> list_ex (sameInstalledService d) al])\<rparr>"
proof (induction ds arbitrary: u xs ys)
  case Nil
  then show ?case by simp
next
  case (Cons d ds)
  show ?case
  proof (cases "list_ex (sameInstalledService d) us")
    case True
    with Cons.IH [OF Cons.prems] show ?thesis by simp
  next
    case notUsers: False
    show ?thesis
    proof (cases "list_ex (sameInstalledService d) al")
      case True
      let ?u = "u\<lparr>InstallServices := append_slice (InstallServices u) d\<rparr>"
      from Cons.prems have "InstallServices ?u = Some (xs @ [d])" "DownloadServices ?u = Some ys"
        by (simp_all add: append_slice_def elems_def)
      from Cons.IH [OF this] notUsers True show ?thesis by simp
    next
      case False
      let ?u = "u\<lparr>DownloadServices := append_slice (DownloadServices u) d\<rparr>"
      from Cons.prems have "InstallServices ?u = Some xs" "DownloadServices ?u = Some (ys @ [d])"
        by (simp_all add: append_slice_def elems_def)
      from Cons.IH [OF this] notUsers False show ?thesis by simp
    qed
  qed
qed

lemma usersServicesLoop_eq:
  "RemoveServices u = Some xs \<Longrightarrow>
   usersServicesLoop ds us u =
     u\<lparr>RemoveServices := Some (xs @ [s \<leftarrow> us. si_Status s = InstalledStatus
          \<and> \<not> list_ex (\<lambda>d. si_ID s = sfc_ID d) ds])\<rparr>"
proof (induction us arbitrary: u xs)
  case Nil
  then show ?case by simp
next
  case (Cons s us)
  show ?case
  proof (cases "si_Status s = InstalledStatus \<and> \<not> list_ex (\<lambda>d. si_ID s = sfc_ID d) ds")
    case True
    let ?u = "u\<lparr>RemoveServices := append_slice (RemoveServices u) s\<rparr>"
    from Cons.prems have "RemoveServices ?u = Some (xs @ [s])"
      by (simp add: append_slice_def elems_def)
    from Cons.IH [OF this] True show ?thesis by simp
  next
    case False
    with Cons.IH [OF Cons.prems] show ?thesis by auto
  qed
qed

lemma desiredLayersLoop_services:
  "InstallServices (desiredLayersLoop ul al ds u) = InstallServices u
   \<and> DownloadServices (desiredLayersLoop ul al ds u) = DownloadServices u
   \<and> RemoveServices (desiredLayersLoop ul al ds u) = RemoveServices u"
  by (induction ds arbitrary: u) auto

lemma usersLayersLoop_services:
  "InstallServices (usersLayersLoop ds ul u) = InstallServices u
   \<and> DownloadServices (usersLayersLoop ds ul u) = DownloadServices u
   \<and> RemoveServices (usersLayersLoop ds ul u) = RemoveServices u"
  by (induction ul arbitrary: u) auto

lemma desiredUpdate_services_eq:
  "InstallServices (desiredUpdate desiredStatus usersServices usersLayers allServices allLayers)
     = Some [d \<leftarrow> ds_Services desiredStatus.
               \<not> list_ex (sameInstalledService d) usersServices
               \<and> list_ex (sameInstalledService d) allServices]
   \<and> DownloadServices (desiredUpdate desiredStatus usersServices usersLayers allServices allLayers)
     = Some [d \<leftarrow> ds_Services desiredStatus.
               \<not> list_ex (sameInstalledService d) usersServices
               \<and> \<not> list_ex (sameInstalledService d) allServices]
   \<and> RemoveServices (desiredUpdate desiredStatus usersServices usersLayers allServices allLayers)
     = Some [s \<leftarrow> usersServices. si_Status s = InstalledStatus
               \<and> \<not> list_ex (\<lambda>d. si_ID s = sfc_ID d) (ds_Services desiredStatus)]"
  by (simp add: desiredUpdate_def Let_def usersLayersLoop_services desiredLayersLoop_services
      desiredServicesLoop_eq usersServicesLoop_eq)

text \<open>A sample desired status and installed services. Desired: \<open>svcA\<close> version 1, \<open>svcB\<close>
  version 2, \<open>svcC\<close> version 1, \<open>svcD\<close> version 3. For the current users \<open>svcA\<close>
  version 1, \<open>svcD\<close> version 2 and \<open>svcE\<close> are installed and \<open>svcF\<close> has failed; among all
  services there is \<open>svcB\<close> version 2 installed besides, and \<open>svcC\<close> version 1 with an
  error.\<close>

definition desiredService :: "string \<Rightarrow> 64 word \<Rightarrow> ServiceInfoFromCloud" where
  "desiredService i version =
     \<lparr>sfc_ID = i, sfc_AosVersion = version, sfc_DecryptDataStruct = noDecrypt\<rparr>"

definition serviceWith :: "string \<Rightarrow> 64 word \<Rightarrow> string \<Rightarrow> ServiceInfo" where
  "serviceWith i version status =
     \<lparr>si_ID = i, si_AosVersion = version, si_Status = status, si_Error = [],
      si_StateChecksum = []\<rparr>"

definition sampleDesired :: DecodedDesiredStatus where
  "sampleDesired = \<lparr>ds_SOTASchedule = forceSchedule,
     ds_Services = [desiredService ''svcA'' 1, desiredService ''svcB'' 2,
                    desiredService ''svcC'' 1, desiredService ''svcD'' 3],
     ds_Layers = [], ds_CertificateChains = [], ds_Certificates = []\<rparr>"

definition sampleUsersServices :: "ServiceInfo list" where
  "sampleUsersServices =
     [serviceWith ''svcA'' 1 ''installed'', serviceWith ''svcD'' 2 ''installed'',
      serviceWith ''svcE'' 1 ''installed'', serviceWith ''svcF'' 1 ''error'']"

definition sampleAllServices :: "ServiceInfo list" where
  "sampleAllServices =
     sampleUsersServices @ [serviceWith ''svcB'' 2 ''installed'', serviceWith ''svcC'' 1 ''error'']"

text \<open>
  Claim C6. In the update built from a desired status, the install-services list is the
  desired services, in order, for which no service of the current users has the same id,
  the same version and the status \<open>installed\<close>, but some service among all services has;
  the download-services list is the desired services for which neither has; so a desired
  service that is installed for the current users in its version is in neither list. The
  remove-services list is the current users' services with status \<open>installed\<close> whose id
  no desired service has.
\<close>

theorem desiredUpdate_services:
  "InstallServices (desiredUpdate desiredStatus usersServices usersLayers allServices allLayers)
     = Some [d \<leftarrow> ds_Services desiredStatus.
               \<not> (\<exists>u \<in> set usersServices. sfc_ID d = si_ID u
                      \<and> sfc_AosVersion d = si_AosVersion u \<and> si_Status u = InstalledStatus)
               \<and> (\<exists>s \<in> set allServices. sfc_ID d = si_ID s
                      \<and> sfc_AosVersion d = si_AosVersion s \<and> si_Status s = InstalledStatus)]
   \<and> DownloadServices (desiredUpdate desiredStatus usersServices usersLayers allServices allLayers)
     = Some [d \<leftarrow> ds_Services desiredStatus.
               \<not> (\<exists>u \<in> set usersServices. sfc_ID d = si_ID u
                      \<and> sfc_AosVersion d = si_AosVersion u \<and> si_Status u = InstalledStatus)
               \<and> \<not> (\<exists>s \<in> set allServices. sfc_ID d = si_ID s
                      \<and> sfc_AosVersion d = si_AosVersion s \<and> si_Status s = InstalledStatus)]
   \<and> RemoveServices (desiredUpdate desiredStatus usersServices usersLayers allServices allLayers)
     = Some [u \<leftarrow> usersServices. si_Status u = InstalledStatus
               \<and> \<not> (\<exists>d \<in> set (ds_Services desiredStatus). si_ID u = sfc_ID d)]
   \<and> (\<forall>d \<in> set (ds_Services desiredStatus).
         (\<exists>u \<in> set usersServices. sfc_ID d = si_ID u
             \<and> sfc_AosVersion d = si_AosVersion u \<and> si_Status u = InstalledStatus) \<longrightarrow>
         d \<notin> set (elems (InstallServices
                 (desiredUpdate desiredStatus usersServices usersLayers allServices allLayers)))
         \<and> d \<notin> set (elems (DownloadServices
                 (desiredUpdate desiredStatus usersServices usersLayers allServices allLayers))))"
proof -
  note eq = desiredUpdate_services_eq
      [of desiredStatus usersServices usersLayers allServices allLayers,
       unfolded list_ex_iff sameInstalledService_def]
  have m: "\<forall>d \<in> set (ds_Services desiredStatus).
      (\<exists>u \<in> set usersServices. sfc_ID d = si_ID u
          \<and> sfc_AosVersion d = si_AosVersion u \<and> si_Status u = InstalledStatus) \<longrightarrow>
      d \<notin> set (elems (InstallServices
              (desiredUpdate desiredStatus usersServices usersLayers allServices allLayers)))
      \<and> d \<notin> set (elems (DownloadServices
              (desiredUpdate desiredStatus usersServices usersLayers allServices allLayers)))"
    using eq by (auto simp: elems_def)
  show ?thesis
    apply (intro conjI)
       apply (rule eq [THEN conjunct1])
      apply (rule eq [THEN conjunct2, THEN conjunct1])
     apply (rule eq [THEN conjunct2, THEN conjunct2])
    apply (rule m)
    done
qed

theorem desiredUpdate_services_witness:
  "InstallServices (desiredUpdate sampleDesired sampleUsersServices [] sampleAllServices [])
     = Some [desiredService ''svcB'' 2]
   \<and> DownloadServices (desiredUpdate sampleDesired sampleUsersServices [] sampleAllServices [])
     = Some [desiredService ''svcC'' 1, desiredService ''svcD'' 3]
   \<and> RemoveServices (desiredUpdate sampleDesired sampleUsersServices [] sampleAllServices [])
     = Some [serviceWith ''svcE'' 1 ''installed'']
   \<and> desiredService ''svcA'' 1 \<in> set (ds_Services sampleDesired)
   \<and> sfc_ID (desiredService ''svcA'' 1) = si_ID (serviceWith ''svcA'' 1 ''installed'')
   \<and> sfc_AosVersion (desiredService ''svcA'' 1) = si_AosVersion (serviceWith ''svcA'' 1 ''installed'')
   \<and> si_Status (serviceWith ''svcA'' 1 ''installed'') = InstalledStatus
   \<and> desiredService ''svcA'' 1
        \<notin> set (elems (InstallServices
              (desiredUpdate sampleDesired sampleUsersServices [] sampleAllServices [])))
   \<and> desiredService ''svcA'' 1
        \<notin> set (elems (DownloadServices
              (desiredUpdate sampleDesired sampleUsersServices [] sampleAllServices [])))"
  using desiredUpdate_services [of sampleDesired sampleUsersServices "[]" sampleAllServices "[]"]
  by (simp add: sampleDesired_def sampleUsersServices_def sampleAllServices_def
      desiredService_def serviceWith_def InstalledStatus_def elems_def)

section \<open>Software manager: state changes\<close>

text \<open>
  What the manager does to the outside: the calls of its status handler, the status sent
  on the status channel, the state handed to the storage (the record stands for the JSON
  of its exported fields), the calls of the software updater in the update phase, and the
  event and error the update phase leaves for the state machine's \<open>finishOperation\<close>.
\<close>

datatype swEffect =
    UpdateLayerStatus LayerInfo
  | UpdateServiceStatus ServiceInfo
  | SendStatus UpdateSOTAStatus
  | SaveState softwareManager
  | CallInstallLayer LayerInfoFromCloud
  | CallInstallService "string slice" ServiceInfoFromCloud
  | CallRemoveService "string slice" ServiceInfo
  | FinishOperation string string

definition updateLayerStatusByID ::
  "string \<Rightarrow> string \<Rightarrow> string \<Rightarrow> softwareManager \<Rightarrow> softwareManager \<times> swEffect list" where
  "updateLayerStatusByID i status layerErr manager =
     (case lookup (LayerStatuses manager) i of
        None \<Rightarrow> (manager, [])
      | Some info \<Rightarrow>
          let info = info\<lparr>li_Status := status, li_Error := layerErr\<rparr>
          in (manager\<lparr>LayerStatuses := map_option (mapStore i info) (LayerStatuses manager)\<rparr>,
              [UpdateLayerStatus info]))"

definition updateServiceStatusByID ::
  "string \<Rightarrow> string \<Rightarrow> string \<Rightarrow> string \<Rightarrow> softwareManager \<Rightarrow> softwareManager \<times> swEffect list" where
  "updateServiceStatusByID i status serviceErr stateChecksum manager =
     (case lookup (ServiceStatuses manager) i of
        None \<Rightarrow> (manager, [])
      | Some info \<Rightarrow>
          let info = info\<lparr>si_Status := status, si_Error := serviceErr,
                          si_StateChecksum := stateChecksum\<rparr>
          in (manager\<lparr>ServiceStatuses := map_option (mapStore i info) (ServiceStatuses manager)\<rparr>,
              [UpdateServiceStatus info]))"

definition updateStatusByID ::
  "string \<Rightarrow> string \<Rightarrow> string \<Rightarrow> softwareManager \<Rightarrow> softwareManager \<times> swEffect list" where
  "updateStatusByID i status errorStr manager =
     (if lookup (LayerStatuses manager) i \<noteq> None
      then updateLayerStatusByID i status errorStr manager
      else if lookup (ServiceStatuses manager) i \<noteq> None
      then updateServiceStatusByID i status errorStr [] manager
      else (manager, []))"

text \<open>The two loops of \<open>stateChanged\<close> on a cancel, over the keys of the map in its
  iteration order; each reads the status of its key when it comes to it.\<close>

fun cancelLayerStatuses ::
  "string list \<Rightarrow> string \<Rightarrow> softwareManager \<Rightarrow> softwareManager \<times> swEffect list" where
  "cancelLayerStatuses [] updateErr manager = (manager, [])"
| "cancelLayerStatuses (i # ids) updateErr manager =
     (case lookup (LayerStatuses manager) i of
        None \<Rightarrow> cancelLayerStatuses ids updateErr manager
      | Some status \<Rightarrow>
          if li_Status status \<noteq> ErrorStatus
          then (let (manager1, effs1) = updateLayerStatusByID i ErrorStatus updateErr manager;
                    (manager2, effs2) = cancelLayerStatuses ids updateErr manager1
                in (manager2, effs1 @ effs2))
          else cancelLayerStatuses ids updateErr manager)"

fun cancelServiceStatuses ::
  "string list \<Rightarrow> string \<Rightarrow> softwareManager \<Rightarrow> softwareManager \<times> swEffect list" where
  "cancelServiceStatuses [] updateErr manager = (manager, [])"
| "cancelServiceStatuses (i # ids) updateErr manager =
     (case lookup (ServiceStatuses manager) i of
        None \<Rightarrow> cancelServiceStatuses ids updateErr manager
      | Some status \<Rightarrow>
          if si_Status status \<noteq> ErrorStatus
          then (let (manager1, effs1) = updateServiceStatusByID i ErrorStatus updateErr [] manager;
                    (manager2, effs2) = cancelServiceStatuses ids updateErr manager1
                in (manager2, effs1 @ effs2))
          else cancelServiceStatuses ids updateErr manager)"

definition stateChanged ::
  "string \<Rightarrow> string \<Rightarrow> string \<Rightarrow> softwareManager \<Rightarrow> softwareManager \<times> swEffect list" where
  "stateChanged event state updateErr manager =
     (let (manager, effs) =
            (if event = eventCancel
             then (let (manager1, effs1) =
                         cancelLayerStatuses (map fst (entries (LayerStatuses manager)))
                           updateErr manager;
                       (manager2, effs2) =
                         cancelServiceStatuses (map fst (entries (ServiceStatuses manager1)))
                           updateErr manager1
                   in (manager2, effs1 @ effs2))
             else (manager, []));
          manager = manager\<lparr>CurrentState := state, UpdateErr := updateErr\<rparr>
      in (manager, effs @ [SendStatus (getCurrentStatus manager), SaveState manager]))"

text \<open>What a cancel makes of one status entry.\<close>

definition cancelledLayer :: "string \<Rightarrow> LayerInfo \<Rightarrow> LayerInfo" where
  "cancelledLayer updateErr l =
     (if li_Status l \<noteq> ErrorStatus then l\<lparr>li_Status := ErrorStatus, li_Error := updateErr\<rparr> else l)"

definition cancelledService :: "string \<Rightarrow> ServiceInfo \<Rightarrow> ServiceInfo" where
  "cancelledService updateErr s =
     (if si_Status s \<noteq> ErrorStatus
      then s\<lparr>si_Status := ErrorStatus, si_Error := updateErr, si_StateChecksum := []\<rparr> else s)"

section \<open>Software manager: properties of a cancel\<close>

lemma map_of_middle: "k \<notin> fst ` set pre \<Longrightarrow> map_of (pre @ (k, v) # post) k = Some v"
  by (induction pre) auto

lemma mapStore_middle:
  "k \<notin> fst ` set pre \<Longrightarrow> mapStore k w (pre @ (k, v) # post) = pre @ (k, w) # post"
  by (induction pre) auto

lemma cancelLayerStatuses_eq:
  "LayerStatuses m = Some (pre @ post) \<Longrightarrow> distinct (map fst (pre @ post)) \<Longrightarrow>
   cancelLayerStatuses (map fst post) err m =
     (m\<lparr>LayerStatuses := Some (pre @ map (\<lambda>(k, l). (k, cancelledLayer err l)) post)\<rparr>,
      map UpdateLayerStatus
        (map (cancelledLayer err) [l \<leftarrow> map snd post. li_Status l \<noteq> ErrorStatus]))"
proof (induction post arbitrary: pre m)
  case Nil
  then show ?case by simp
next
  case (Cons p post)
  obtain k l where p: "p = (k, l)" by (cases p)
  from Cons.prems p have k: "k \<notin> fst ` set pre" by auto
  from Cons.prems(1) p have "entries (LayerStatuses m) = pre @ (k, l) # post"
    by (simp add: entries_def)
  then have look: "lookup (LayerStatuses m) k = Some l"
    by (simp only: lookup_def map_of_middle [OF k])
  show ?case
  proof (cases "li_Status l \<noteq> ErrorStatus")
    case True
    let ?l = "l\<lparr>li_Status := ErrorStatus, li_Error := err\<rparr>"
    let ?m = "m\<lparr>LayerStatuses := Some ((pre @ [(k, ?l)]) @ post)\<rparr>"
    from Cons.prems p k look
    have step: "updateLayerStatusByID k ErrorStatus err m = (?m, [UpdateLayerStatus ?l])"
      by (simp add: updateLayerStatusByID_def Let_def mapStore_middle)
    have "LayerStatuses ?m = Some ((pre @ [(k, ?l)]) @ post)" by simp
    moreover from Cons.prems p have "distinct (map fst ((pre @ [(k, ?l)]) @ post))" by simp
    ultimately have "cancelLayerStatuses (map fst post) err ?m =
        (?m\<lparr>LayerStatuses := Some ((pre @ [(k, ?l)]) @ map (\<lambda>(k, l). (k, cancelledLayer err l)) post)\<rparr>,
         map UpdateLayerStatus
           (map (cancelledLayer err) [l \<leftarrow> map snd post. li_Status l \<noteq> ErrorStatus]))"
      by (rule Cons.IH)
    with step look True p show ?thesis by (simp add: cancelledLayer_def)
  next
    case False
    from Cons.prems p have "LayerStatuses m = Some ((pre @ [(k, l)]) @ post)" by simp
    moreover from Cons.prems p have "distinct (map fst ((pre @ [(k, l)]) @ post))" by simp
    ultimately have "cancelLayerStatuses (map fst post) err m =
        (m\<lparr>LayerStatuses := Some ((pre @ [(k, l)]) @ map (\<lambda>(k, l). (k, cancelledLayer err l)) post)\<rparr>,
         map UpdateLayerStatus
           (map (cancelledLayer err) [l \<leftarrow> map snd post. li_Status l \<noteq> ErrorStatus]))"
      by (rule Cons.IH)
    with look False p show ?thesis by (simp add: cancelledLayer_def)
  qed
qed

lemma cancelServiceStatuses_eq:
  "ServiceStatuses m = Some (pre @ post) \<Longrightarrow> distinct (map fst (pre @ post)) \<Longrightarrow>
   cancelServiceStatuses (map fst post) err m =
     (m\<lparr>ServiceStatuses := Some (pre @ map (\<lambda>(k, s). (k, cancelledService err s)) post)\<rparr>,
      map UpdateServiceStatus
        (map (cancelledService err) [s \<leftarrow> map snd post. si_Status s \<noteq> ErrorStatus]))"
proof (induction post arbitrary: pre m)
  case Nil
  then show ?case by simp
next
  case (Cons p post)
  obtain k l where p: "p = (k, l)" by (cases p)
  from Cons.prems p have k: "k \<notin> fst ` set pre" by auto
  from Cons.prems(1) p have "entries (ServiceStatuses m) = pre @ (k, l) # post"
    by (simp add: entries_def)
  then have look: "lookup (ServiceStatuses m) k = Some l"
    by (simp only: lookup_def map_of_middle [OF k])
  show ?case
  proof (cases "si_Status l \<noteq> ErrorStatus")
    case True
    let ?l = "l\<lparr>si_Status := ErrorStatus, si_Error := err, si_StateChecksum := []\<rparr>"
    let ?m = "m\<lparr>ServiceStatuses := Some ((pre @ [(k, ?l)]) @ post)\<rparr>"
    from Cons.prems p k look
    have step: "updateServiceStatusByID k ErrorStatus err [] m = (?m, [UpdateServiceStatus ?l])"
      by (simp add: updateServiceStatusByID_def Let_def mapStore_middle)
    have "ServiceStatuses ?m = Some ((pre @ [(k, ?l)]) @ post)" by simp
    moreover from Cons.prems p have "distinct (map fst ((pre @ [(k, ?l)]) @ post))" by simp
    ultimately have "cancelServiceStatuses (map fst post) err ?m =
        (?m\<lparr>ServiceStatuses := Some ((pre @ [(k, ?l)]) @ map (\<lambda>(k, s). (k, cancelledService err s)) post)\<rparr>,
         map UpdateServiceStatus
           (map (cancelledService err) [s \<leftarrow> map snd post. si_Status s \<noteq> ErrorStatus]))"
      by (rule Cons.IH)
    with step look True p show ?thesis by (simp add: cancelledService_def)
  next
    case False
    from Cons.prems p have "ServiceStatuses m = Some ((pre @ [(k, l)]) @ post)" by simp
    moreover from Cons.prems p have "distinct (map fst ((pre @ [(k, l)]) @ post))" by simp
    ultimately have "cancelServiceStatuses (map fst post) err m =
        (m\<lparr>ServiceStatuses := Some ((pre @ [(k, l)]) @ map (\<lambda>(k, s). (k, cancelledService err s)) post)\<rparr>,
         map UpdateServiceStatus
           (map (cancelledService err) [s \<leftarrow> map snd post. si_Status s \<noteq> ErrorStatus]))"
      by (rule Cons.IH)
    with look False p show ?thesis by (simp add: cancelledService_def)
  qed
qed

lemma cancelLayerStatuses_all:
  assumes "distinct (map fst (entries (LayerStatuses m)))"
  shows "cancelLayerStatuses (map fst (entries (LayerStatuses m))) err m =
     (m\<lparr>LayerStatuses := map_option (map (\<lambda>(k, l). (k, cancelledLayer err l))) (LayerStatuses m)\<rparr>,
      map UpdateLayerStatus (map (cancelledLayer err)
        [l \<leftarrow> map snd (entries (LayerStatuses m)). li_Status l \<noteq> ErrorStatus]))"
proof (cases "LayerStatuses m")
  case None
  then have "m\<lparr>LayerStatuses := None\<rparr> = m" by (cases m) simp
  with None show ?thesis by (simp add: entries_def)
next
  case (Some xs)
  with assms cancelLayerStatuses_eq [of m "[]" xs err] show ?thesis
    by (simp add: entries_def)
qed

lemma cancelServiceStatuses_all:
  assumes "distinct (map fst (entries (ServiceStatuses m)))"
  shows "cancelServiceStatuses (map fst (entries (ServiceStatuses m))) err m =
     (m\<lparr>ServiceStatuses := map_option (map (\<lambda>(k, s). (k, cancelledService err s))) (ServiceStatuses m)\<rparr>,
      map UpdateServiceStatus (map (cancelledService err)
        [s \<leftarrow> map snd (entries (ServiceStatuses m)). si_Status s \<noteq> ErrorStatus]))"
proof (cases "ServiceStatuses m")
  case None
  then have "m\<lparr>ServiceStatuses := None\<rparr> = m" by (cases m) simp
  with None show ?thesis by (simp add: entries_def)
next
  case (Some xs)
  with assms cancelServiceStatuses_eq [of m "[]" xs err] show ?thesis
    by (simp add: entries_def)
qed

lemma entries_map_option: "entries (map_option (map f) m) = map f (entries m)"
  by (cases m) (simp_all add: entries_def)

lemma cancelled_statuses:
  "li_Status (cancelledLayer err l) = ErrorStatus"
  "si_Status (cancelledService err s) = ErrorStatus"
  by (simp_all add: cancelledLayer_def cancelledService_def)

text \<open>
  Claim C3. On a cancel, \<open>stateChanged\<close> first overwrites every layer status and every
  service status that is not \<open>error\<close> with \<open>error\<close> and the reason given with the
  transition, reporting each overwritten status to the status handler; a status that is
  \<open>error\<close> already stays as it is. Only then are the new state and the error recorded in
  the manager, sent on the status channel and saved. Afterwards every layer status and
  every service status is \<open>error\<close>. The maps have one entry per key.
\<close>

theorem stateChanged_cancel:
  assumes "distinct (map fst (entries (LayerStatuses manager)))"
    and "distinct (map fst (entries (ServiceStatuses manager)))"
  shows "stateChanged eventCancel state updateErr manager =
      (let manager' = manager\<lparr>
             LayerStatuses := map_option (map (\<lambda>(k, l). (k, cancelledLayer updateErr l)))
                                (LayerStatuses manager),
             ServiceStatuses := map_option (map (\<lambda>(k, s). (k, cancelledService updateErr s)))
                                (ServiceStatuses manager),
             CurrentState := state, UpdateErr := updateErr\<rparr>
       in (manager',
           map UpdateLayerStatus (map (cancelledLayer updateErr)
               [l \<leftarrow> map snd (entries (LayerStatuses manager)). li_Status l \<noteq> ErrorStatus])
           @ map UpdateServiceStatus (map (cancelledService updateErr)
               [s \<leftarrow> map snd (entries (ServiceStatuses manager)). si_Status s \<noteq> ErrorStatus])
           @ [SendStatus (getCurrentStatus manager'), SaveState manager']))
     \<and> (\<forall>(k, l) \<in> set (entries (LayerStatuses (fst (stateChanged eventCancel state updateErr manager)))).
           li_Status l = ErrorStatus)
     \<and> (\<forall>(k, s) \<in> set (entries (ServiceStatuses (fst (stateChanged eventCancel state updateErr manager)))).
           si_Status s = ErrorStatus)
     \<and> (\<forall>(k, l) \<in> set (entries (LayerStatuses manager)). li_Status l \<noteq> ErrorStatus \<longrightarrow>
           (k, l\<lparr>li_Status := ErrorStatus, li_Error := updateErr\<rparr>)
             \<in> set (entries (LayerStatuses (fst (stateChanged eventCancel state updateErr manager)))))
     \<and> (\<forall>(k, s) \<in> set (entries (ServiceStatuses manager)). si_Status s \<noteq> ErrorStatus \<longrightarrow>
           (k, s\<lparr>si_Status := ErrorStatus, si_Error := updateErr, si_StateChecksum := []\<rparr>)
             \<in> set (entries (ServiceStatuses (fst (stateChanged eventCancel state updateErr manager)))))"
proof -
  let ?m1 = "manager\<lparr>LayerStatuses :=
      map_option (map (\<lambda>(k, l). (k, cancelledLayer updateErr l))) (LayerStatuses manager)\<rparr>"
  note layers = cancelLayerStatuses_all [OF assms(1), of updateErr]
  have "distinct (map fst (entries (ServiceStatuses ?m1)))" using assms(2) by simp
  from cancelServiceStatuses_all [OF this, of updateErr]
  have services: "cancelServiceStatuses (map fst (entries (ServiceStatuses manager))) updateErr ?m1 =
      (?m1\<lparr>ServiceStatuses :=
          map_option (map (\<lambda>(k, s). (k, cancelledService updateErr s))) (ServiceStatuses manager)\<rparr>,
       map UpdateServiceStatus (map (cancelledService updateErr)
         [s \<leftarrow> map snd (entries (ServiceStatuses manager)). si_Status s \<noteq> ErrorStatus]))"
    by simp
  have eq: "stateChanged eventCancel state updateErr manager =
      (let manager' = manager\<lparr>
             LayerStatuses := map_option (map (\<lambda>(k, l). (k, cancelledLayer updateErr l)))
                                (LayerStatuses manager),
             ServiceStatuses := map_option (map (\<lambda>(k, s). (k, cancelledService updateErr s)))
                                (ServiceStatuses manager),
             CurrentState := state, UpdateErr := updateErr\<rparr>
       in (manager',
           map UpdateLayerStatus (map (cancelledLayer updateErr)
               [l \<leftarrow> map snd (entries (LayerStatuses manager)). li_Status l \<noteq> ErrorStatus])
           @ map UpdateServiceStatus (map (cancelledService updateErr)
               [s \<leftarrow> map snd (entries (ServiceStatuses manager)). si_Status s \<noteq> ErrorStatus])
           @ [SendStatus (getCurrentStatus manager'), SaveState manager']))"
    unfolding stateChanged_def by (simp add: layers services Let_def)
  have ls: "entries (LayerStatuses (fst (stateChanged eventCancel state updateErr manager))) =
      map (\<lambda>(k, l). (k, cancelledLayer updateErr l)) (entries (LayerStatuses manager))"
    by (simp add: eq Let_def entries_map_option)
  have ss: "entries (ServiceStatuses (fst (stateChanged eventCancel state updateErr manager))) =
      map (\<lambda>(k, s). (k, cancelledService updateErr s)) (entries (ServiceStatuses manager))"
    by (simp add: eq Let_def entries_map_option)
  have a: "\<forall>(k, l) \<in> set (entries (LayerStatuses (fst (stateChanged eventCancel state updateErr manager)))).
      li_Status l = ErrorStatus"
    unfolding ls by (auto simp: cancelled_statuses)
  have b: "\<forall>(k, s) \<in> set (entries (ServiceStatuses (fst (stateChanged eventCancel state updateErr manager)))).
      si_Status s = ErrorStatus"
    unfolding ss by (auto simp: cancelled_statuses)
  have c: "\<forall>(k, l) \<in> set (entries (LayerStatuses manager)). li_Status l \<noteq> ErrorStatus \<longrightarrow>
      (k, l\<lparr>li_Status := ErrorStatus, li_Error := updateErr\<rparr>)
        \<in> set (entries (LayerStatuses (fst (stateChanged eventCancel state updateErr manager))))"
    unfolding ls by (force simp: cancelledLayer_def)
  have d: "\<forall>(k, s) \<in> set (entries (ServiceStatuses manager)). si_Status s \<noteq> ErrorStatus \<longrightarrow>
      (k, s\<lparr>si_Status := ErrorStatus, si_Error := updateErr, si_StateChecksum := []\<rparr>)
        \<in> set (entries (ServiceStatuses (fst (stateChanged eventCancel state updateErr manager))))"
    unfolding ss by (force simp: cancelledService_def)
  from eq a b c d show ?thesis by blast
qed

text \<open>A sample manager in the downloading state: one layer downloading, one layer failed,
  one service pending.\<close>

definition statusD1 :: LayerInfo where
  "statusD1 = \<lparr>li_ID = ''L1'', li_AosVersion = 1, li_Digest = ''sha256:1'',
     li_Status = ''downloading'', li_Error = []\<rparr>"

definition statusD2 :: LayerInfo where
  "statusD2 = \<lparr>li_ID = ''L2'', li_AosVersion = 1, li_Digest = ''sha256:2'',
     li_Status = ''error'', li_Error = ''no space''\<rparr>"

definition statusS1 :: ServiceInfo where
  "statusS1 = \<lparr>si_ID = ''svcX'', si_AosVersion = 2, si_Status = ''pending'', si_Error = [],
     si_StateChecksum = []\<rparr>"

definition mgrBusy :: softwareManager where
  "mgrBusy = \<lparr>pendingUpdate = None, currentUsers = None,
     LayerStatuses = Some [(''sha256:1'', statusD1), (''sha256:2'', statusD2)],
     ServiceStatuses = Some [(''svcX'', statusS1)], CurrentUpdate = None, DownloadResult = [],
     CurrentState = ''downloading'', UpdateErr = [], TTLDate = 0\<rparr>"

definition mgrCancelled :: softwareManager where
  "mgrCancelled = \<lparr>pendingUpdate = None, currentUsers = None,
     LayerStatuses = Some [(''sha256:1'', statusD1\<lparr>li_Status := ''error'', li_Error := ''update TTL expired''\<rparr>),
                           (''sha256:2'', statusD2)],
     ServiceStatuses = Some [(''svcX'', statusS1\<lparr>si_Status := ''error'', si_Error := ''update TTL expired''\<rparr>)],
     CurrentUpdate = None, DownloadResult = [],
     CurrentState = ''noUpdate'', UpdateErr = ''update TTL expired'', TTLDate = 0\<rparr>"

theorem stateChanged_cancel_witness:
  "distinct (map fst (entries (LayerStatuses mgrBusy)))
   \<and> distinct (map fst (entries (ServiceStatuses mgrBusy)))
   \<and> stateChanged eventCancel stateNoUpdate ''update TTL expired'' mgrBusy =
       (mgrCancelled,
        [UpdateLayerStatus (statusD1\<lparr>li_Status := ''error'', li_Error := ''update TTL expired''\<rparr>),
         UpdateServiceStatus (statusS1\<lparr>si_Status := ''error'', si_Error := ''update TTL expired''\<rparr>),
         SendStatus (getCurrentStatus mgrCancelled), SaveState mgrCancelled])
   \<and> li_Status (snd (entries (LayerStatuses mgrCancelled) ! 0)) = ErrorStatus
   \<and> li_Status (snd (entries (LayerStatuses mgrCancelled) ! 1)) = ErrorStatus
   \<and> li_Error (snd (entries (LayerStatuses mgrCancelled) ! 1)) = ''no space''
   \<and> si_Status (snd (entries (ServiceStatuses mgrCancelled) ! 0)) = ErrorStatus"
  using stateChanged_cancel [of mgrBusy stateNoUpdate "''update TTL expired''"]
  by (simp add: mgrBusy_def mgrCancelled_def statusD1_def statusD2_def statusS1_def
      cancelledLayer_def cancelledService_def ErrorStatus_def stateNoUpdate_def Let_def
      entries_def)

section \<open>Software manager: the update phase\<close>

text \<open>
  \<open>update\<close> runs four phases one after the other. A phase that uses the action handler
  starts one action per item and waits for all of them; the actions run concurrently and
  each ends by reporting its item's status and, on an error, by writing the phase's error
  string under the phase's mutex. The model takes the actions of a phase in the order in
  which they return, given as the list of their positions in the phase's item list; all
  items are started before the first action returns. A position that is not one of the
  phase's items stands for no action and is passed over.

  The calls of the software updater are inputs: for the action at a position and its
  argument, \<open>InstallLayer\<close> and \<open>RemoveService\<close> give the message of the error returned, if
  any, and \<open>InstallService\<close> gives that message or the state checksum. \<open>isCancelError\<close> is
  not among the sources and is a parameter, as is \<open>fileURL\<close>, the text of the \<open>file\<close> URL
  of a path.
\<close>

type_synonym phase = "softwareManager \<times> string \<times> swEffect list"

definition cantGetDownloadResult :: string where
  "cantGetDownloadResult = ''can't get download result''"

text \<open>The three \<open>handleError\<close> closures. A cancel error is only logged. Any other error
  is reported as the item's status and becomes the phase's error if there is none yet.\<close>

definition handleLayerError :: "(string \<Rightarrow> bool) \<Rightarrow> LayerInfoFromCloud \<Rightarrow> string \<Rightarrow> phase \<Rightarrow> phase" where
  "handleLayerError isCancelError layer layerErr ph =
     (case ph of (manager, installErr, effs) \<Rightarrow>
        if isCancelError layerErr then (manager, installErr, effs)
        else (case updateLayerStatusByID (lfc_Digest layer) ErrorStatus layerErr manager of
                (manager, e) \<Rightarrow>
                  (manager, if installErr = [] then layerErr else installErr, effs @ e)))"

definition handleServiceError :: "(string \<Rightarrow> bool) \<Rightarrow> string \<Rightarrow> string \<Rightarrow> phase \<Rightarrow> phase" where
  "handleServiceError isCancelError serviceID serviceErr ph =
     (case ph of (manager, installErr, effs) \<Rightarrow>
        if isCancelError serviceErr then (manager, installErr, effs)
        else (case updateStatusByID serviceID ErrorStatus serviceErr manager of
                (manager, e) \<Rightarrow>
                  (manager, if installErr = [] then serviceErr else installErr, effs @ e)))"

text \<open>A status update in a phase, its report added to the effects.\<close>

definition layerStatus :: "string \<Rightarrow> string \<Rightarrow> string \<Rightarrow> phase \<Rightarrow> phase" where
  "layerStatus digest status layerErr ph =
     (case ph of (manager, installErr, effs) \<Rightarrow>
        (case updateLayerStatusByID digest status layerErr manager of
           (manager, e) \<Rightarrow> (manager, installErr, effs @ e)))"

definition serviceStatus :: "string \<Rightarrow> string \<Rightarrow> string \<Rightarrow> string \<Rightarrow> phase \<Rightarrow> phase" where
  "serviceStatus serviceID status serviceErr stateChecksum ph =
     (case ph of (manager, installErr, effs) \<Rightarrow>
        (case updateServiceStatusByID serviceID status serviceErr stateChecksum manager of
           (manager, e) \<Rightarrow> (manager, installErr, effs @ e)))"

definition addEffect :: "swEffect \<Rightarrow> phase \<Rightarrow> phase" where
  "addEffect e ph = (case ph of (manager, installErr, effs) \<Rightarrow> (manager, installErr, effs @ [e]))"

definition downloadedData :: "(string \<Rightarrow> string) \<Rightarrow> downloadResult \<Rightarrow> DecryptDataStruct" where
  "downloadedData fileURL downloadInfo =
     \<lparr>dd_URLs = Some [fileURL (dr_FileName downloadInfo)],
      dd_Sha256 = dr_Sha256 downloadInfo, dd_Sha512 = dr_Sha512 downloadInfo,
      dd_Size = dr_Size downloadInfo\<rparr>"

subsection \<open>Install layers\<close>

text \<open>The first loop of \<open>installLayers\<close>, over the layers to download: the layers that
  were downloaded, with the downloaded file as their data.\<close>

fun downloadedLayers ::
  "(string \<Rightarrow> bool) \<Rightarrow> (string \<Rightarrow> string) \<Rightarrow> LayerInfoFromCloud list \<Rightarrow> phase \<Rightarrow>
   LayerInfoFromCloud list \<Rightarrow> phase \<times> LayerInfoFromCloud list" where
  "downloadedLayers isCancelError fileURL [] ph installLayers = (ph, installLayers)"
| "downloadedLayers isCancelError fileURL (layer # rest) ph installLayers =
     (case map_of (DownloadResult (fst ph)) (lfc_Digest layer) of
        None \<Rightarrow>
          downloadedLayers isCancelError fileURL rest
            (handleLayerError isCancelError layer cantGetDownloadResult ph) installLayers
      | Some downloadInfo \<Rightarrow>
          if dr_Error downloadInfo \<noteq> []
          then downloadedLayers isCancelError fileURL rest ph installLayers
          else downloadedLayers isCancelError fileURL rest ph
                 (installLayers
                  @ [layer\<lparr>lfc_DecryptDataStruct := downloadedData fileURL downloadInfo\<rparr>]))"

fun startInstallLayers :: "LayerInfoFromCloud list \<Rightarrow> phase \<Rightarrow> phase" where
  "startInstallLayers [] ph = ph"
| "startInstallLayers (layer # rest) ph =
     startInstallLayers rest (layerStatus (lfc_Digest layer) InstallingStatus [] ph)"

fun finishInstallLayers ::
  "(string \<Rightarrow> bool) \<Rightarrow> (nat \<Rightarrow> LayerInfoFromCloud \<Rightarrow> string option) \<Rightarrow>
   LayerInfoFromCloud list \<Rightarrow> nat list \<Rightarrow> phase \<Rightarrow> phase" where
  "finishInstallLayers isCancelError InstallLayer layers [] ph = ph"
| "finishInstallLayers isCancelError InstallLayer layers (k # order) ph =
     (if k < length layers
      then (let layerInfo = layers ! k;
                ph = addEffect (CallInstallLayer layerInfo) ph
            in case InstallLayer k layerInfo of
                 Some err \<Rightarrow>
                   finishInstallLayers isCancelError InstallLayer layers order
                     (handleLayerError isCancelError layerInfo err ph)
               | None \<Rightarrow>
                   finishInstallLayers isCancelError InstallLayer layers order
                     (layerStatus (lfc_Digest layerInfo) InstalledStatus [] ph))
      else finishInstallLayers isCancelError InstallLayer layers order ph)"

definition installLayers ::
  "(string \<Rightarrow> bool) \<Rightarrow> (string \<Rightarrow> string) \<Rightarrow> (nat \<Rightarrow> LayerInfoFromCloud \<Rightarrow> string option) \<Rightarrow>
   nat list \<Rightarrow> softwareManager \<Rightarrow> panic + phase" where
  "installLayers isCancelError fileURL InstallLayer order manager =
     (case CurrentUpdate manager of
        None \<Rightarrow> Inl NilDereference
      | Some current \<Rightarrow>
          (case downloadedLayers isCancelError fileURL (elems (DownloadLayers current))
                  (manager, [], []) [] of
             (ph, layers) \<Rightarrow>
               let layers = layers @ elems (InstallLayers current);
                   ph = startInstallLayers layers ph
               in Inr (finishInstallLayers isCancelError InstallLayer layers order ph)))"

subsection \<open>Install services\<close>

fun downloadedServices ::
  "(string \<Rightarrow> bool) \<Rightarrow> (string \<Rightarrow> string) \<Rightarrow> ServiceInfoFromCloud list \<Rightarrow> phase \<Rightarrow>
   ServiceInfoFromCloud list \<Rightarrow> phase \<times> ServiceInfoFromCloud list" where
  "downloadedServices isCancelError fileURL [] ph installServices = (ph, installServices)"
| "downloadedServices isCancelError fileURL (service # rest) ph installServices =
     (case map_of (DownloadResult (fst ph)) (sfc_ID service) of
        None \<Rightarrow>
          downloadedServices isCancelError fileURL rest
            (handleServiceError isCancelError (sfc_ID service) cantGetDownloadResult ph)
            installServices
      | Some downloadInfo \<Rightarrow>
          if dr_Error downloadInfo \<noteq> []
          then downloadedServices isCancelError fileURL rest ph installServices
          else downloadedServices isCancelError fileURL rest ph
                 (installServices
                  @ [service\<lparr>sfc_DecryptDataStruct := downloadedData fileURL downloadInfo\<rparr>]))"

fun startInstallServices :: "ServiceInfoFromCloud list \<Rightarrow> phase \<Rightarrow> phase" where
  "startInstallServices [] ph = ph"
| "startInstallServices (service # rest) ph =
     startInstallServices rest (serviceStatus (sfc_ID service) InstallingStatus [] [] ph)"

fun finishInstallServices ::
  "(string \<Rightarrow> bool) \<Rightarrow> (nat \<Rightarrow> string slice \<Rightarrow> ServiceInfoFromCloud \<Rightarrow> string + string) \<Rightarrow>
   ServiceInfoFromCloud list \<Rightarrow> nat list \<Rightarrow> phase \<Rightarrow> phase" where
  "finishInstallServices isCancelError InstallService services [] ph = ph"
| "finishInstallServices isCancelError InstallService services (k # order) ph =
     (if k < length services
      then (let serviceInfo = services ! k;
                users = currentUsers (fst ph);
                ph = addEffect (CallInstallService users serviceInfo) ph
            in case InstallService k users serviceInfo of
                 Inl err \<Rightarrow>
                   finishInstallServices isCancelError InstallService services order
                     (handleServiceError isCancelError (sfc_ID serviceInfo) err ph)
               | Inr stateChecksum \<Rightarrow>
                   finishInstallServices isCancelError InstallService services order
                     (serviceStatus (sfc_ID serviceInfo) InstalledStatus [] stateChecksum ph))
      else finishInstallServices isCancelError InstallService services order ph)"

definition installServices ::
  "(string \<Rightarrow> bool) \<Rightarrow> (string \<Rightarrow> string) \<Rightarrow>
   (nat \<Rightarrow> string slice \<Rightarrow> ServiceInfoFromCloud \<Rightarrow> string + string) \<Rightarrow>
   nat list \<Rightarrow> softwareManager \<Rightarrow> panic + phase" where
  "installServices isCancelError fileURL InstallService order manager =
     (case CurrentUpdate manager of
        None \<Rightarrow> Inl NilDereference
      | Some current \<Rightarrow>
          (case downloadedServices isCancelError fileURL (elems (DownloadServices current))
                  (manager, [], []) [] of
             (ph, services) \<Rightarrow>
               let services = services @ elems (InstallServices current);
                   ph = startInstallServices services ph
               in Inr (finishInstallServices isCancelError InstallService services order ph)))"

subsection \<open>Remove services\<close>

text \<open>The loop of \<open>removeServices\<close> assigns a new status to the key of each service; on a
  \<open>nil\<close> map the assignment panics.\<close>

fun startRemoveServices :: "ServiceInfo list \<Rightarrow> phase \<Rightarrow> panic + phase" where
  "startRemoveServices [] ph = Inr ph"
| "startRemoveServices (service # rest) ph =
     (case ph of (manager, removeErr, effs) \<Rightarrow>
        (case ServiceStatuses manager of
           None \<Rightarrow> Inl NilMapWrite
         | Some statuses \<Rightarrow>
             startRemoveServices rest
               (serviceStatus (si_ID service) RemovingStatus [] []
                  (manager\<lparr>ServiceStatuses := Some (mapStore (si_ID service)
                       \<lparr>si_ID = si_ID service, si_AosVersion = si_AosVersion service,
                        si_Status = RemovingStatus, si_Error = [], si_StateChecksum = []\<rparr>
                       statuses)\<rparr>,
                   removeErr, effs))))"

fun finishRemoveServices ::
  "(string \<Rightarrow> bool) \<Rightarrow> (nat \<Rightarrow> string slice \<Rightarrow> ServiceInfo \<Rightarrow> string option) \<Rightarrow>
   ServiceInfo list \<Rightarrow> nat list \<Rightarrow> phase \<Rightarrow> phase" where
  "finishRemoveServices isCancelError RemoveService services [] ph = ph"
| "finishRemoveServices isCancelError RemoveService services (k # order) ph =
     (if k < length services
      then (let serviceStatus' = services ! k;
                users = currentUsers (fst ph);
                ph = addEffect (CallRemoveService users serviceStatus') ph
            in case RemoveService k users serviceStatus' of
                 Some err \<Rightarrow>
                   finishRemoveServices isCancelError RemoveService services order
                     (handleServiceError isCancelError (si_ID serviceStatus') err ph)
               | None \<Rightarrow>
                   finishRemoveServices isCancelError RemoveService services order
                     (serviceStatus (si_ID serviceStatus') RemovedStatus [] [] ph))
      else finishRemoveServices isCancelError RemoveService services order ph)"

definition removeServices ::
  "(string \<Rightarrow> bool) \<Rightarrow> (nat \<Rightarrow> string slice \<Rightarrow> ServiceInfo \<Rightarrow> string option) \<Rightarrow>
   nat list \<Rightarrow> softwareManager \<Rightarrow> panic + phase" where
  "removeServices isCancelError RemoveService order manager =
     (case CurrentUpdate manager of
        None \<Rightarrow> Inl NilDereference
      | Some current \<Rightarrow>
          (case startRemoveServices (elems (RemoveServices current)) (manager, [], []) of
             Inl p \<Rightarrow> Inl p
           | Inr ph \<Rightarrow>
               Inr (finishRemoveServices isCancelError RemoveService
                      (elems (RemoveServices current)) order ph)))"

subsection \<open>Remove layers\<close>

text \<open>\<open>removeLayers\<close> calls nothing: each layer gets a new status entry that is set to
  \<open>removed\<close> and reported. Its error string is always empty.\<close>

fun removeLayersLoop :: "LayerInfo list \<Rightarrow> phase \<Rightarrow> panic + phase" where
  "removeLayersLoop [] ph = Inr ph"
| "removeLayersLoop (layer # rest) ph =
     (case ph of (manager, removeErr, effs) \<Rightarrow>
        (case LayerStatuses manager of
           None \<Rightarrow> Inl NilMapWrite
         | Some statuses \<Rightarrow>
             removeLayersLoop rest
               (layerStatus (li_Digest layer) RemovedStatus []
                  (manager\<lparr>LayerStatuses := Some (mapStore (li_Digest layer)
                       \<lparr>li_ID = li_ID layer, li_AosVersion = li_AosVersion layer,
                        li_Digest = li_Digest layer, li_Status = [], li_Error = []\<rparr>
                       statuses)\<rparr>,
                   removeErr, effs))))"

definition removeLayers :: "softwareManager \<Rightarrow> panic + phase" where
  "removeLayers manager =
     (case CurrentUpdate manager of
        None \<Rightarrow> Inl NilDereference
      | Some current \<Rightarrow> removeLayersLoop (elems (RemoveLayers current)) (manager, [], []))"

subsection \<open>The four phases\<close>

text \<open>The environment of one run of \<open>update\<close>: what the software updater answers and
  the order in which the actions of each phase return.\<close>

record updateEnv =
  env_isCancelError :: "string \<Rightarrow> bool"
  env_fileURL :: "string \<Rightarrow> string"
  env_InstallLayer :: "nat \<Rightarrow> LayerInfoFromCloud \<Rightarrow> string option"
  env_InstallService :: "nat \<Rightarrow> string slice \<Rightarrow> ServiceInfoFromCloud \<Rightarrow> string + string"
  env_RemoveService :: "nat \<Rightarrow> string slice \<Rightarrow> ServiceInfo \<Rightarrow> string option"
  env_layersOrder :: "nat list"
  env_servicesOrder :: "nat list"
  env_removeOrder :: "nat list"

text \<open>\<open>update\<close>: the error string of the first phase that has one is the update error,
  which the deferred function leaves, with the finish-update event, for
  \<open>finishOperation\<close>.\<close>

definition update :: "updateEnv \<Rightarrow> softwareManager \<Rightarrow> panic + phase" where
  "update env manager =
     (case installLayers (env_isCancelError env) (env_fileURL env) (env_InstallLayer env)
             (env_layersOrder env) manager of
        Inl p \<Rightarrow> Inl p
      | Inr (manager, errorStr1, effs1) \<Rightarrow>
     (case installServices (env_isCancelError env) (env_fileURL env) (env_InstallService env)
             (env_servicesOrder env) manager of
        Inl p \<Rightarrow> Inl p
      | Inr (manager, errorStr2, effs2) \<Rightarrow>
     (case removeServices (env_isCancelError env) (env_RemoveService env)
             (env_removeOrder env) manager of
        Inl p \<Rightarrow> Inl p
      | Inr (manager, errorStr3, effs3) \<Rightarrow>
     (case removeLayers manager of
        Inl p \<Rightarrow> Inl p
      | Inr (manager, errorStr4, effs4) \<Rightarrow>
          let updateErr = [];
              updateErr = (if errorStr1 \<noteq> [] \<and> updateErr = [] then errorStr1 else updateErr);
              updateErr = (if errorStr2 \<noteq> [] \<and> updateErr = [] then errorStr2 else updateErr);
              updateErr = (if errorStr3 \<noteq> [] \<and> updateErr = [] then errorStr3 else updateErr);
              updateErr = (if errorStr4 \<noteq> [] \<and> updateErr = [] then errorStr4 else updateErr)
          in Inr (manager, updateErr,
                  effs1 @ effs2 @ effs3 @ effs4 @ [FinishOperation eventFinishUpdate updateErr])))))"

section \<open>Software manager: properties of the update phase\<close>


definition firstError :: "(string \<Rightarrow> bool) \<Rightarrow> string list \<Rightarrow> string" where
  "firstError isCancelError errs =
     (case [e \<leftarrow> errs. \<not> isCancelError e \<and> e \<noteq> []] of [] \<Rightarrow> [] | e # rest \<Rightarrow> e)"

text \<open>A phase's error string after more per-item errors: it keeps an error it has.\<close>

definition orElse :: "(string \<Rightarrow> bool) \<Rightarrow> string \<Rightarrow> string list \<Rightarrow> string" where
  "orElse isCancelError err errs = (if err \<noteq> [] then err else firstError isCancelError errs)"



lemma orElse_Nil [simp]: "orElse c err [] = err"
  by (simp add: orElse_def firstError_def)






























































section \<open>UM controller: data\<close>

record SystemComponent =
  sc_ID :: string
  sc_VendorVersion :: string
  sc_AosVersion :: "64 word"
  sc_Annotations :: string
  sc_URL :: string
  sc_Sha256 :: "8 word slice"
  sc_Sha512 :: "8 word slice"
  sc_Size :: "64 word"

text \<open>The handler of a connection is a pointer: \<open>None\<close> is \<open>nil\<close>, a number names the
  handler of a connected client.\<close>

record umConnection =
  um_umID :: string
  um_isLocalClient :: bool
  um_handler :: "nat option"
  um_updatePriority :: "32 word"
  um_state :: string
  um_components :: "string list"
  um_updatePackages :: "SystemComponent list"

record systemComponentStatus =
  scs_id :: string
  scs_vendorVersion :: string
  scs_aosVersion :: "64 word"
  scs_status :: string
  scs_err :: string

text \<open>A component of the desired status, as \<open>UpdateComponents\<close> reads it.\<close>

record ComponentInfoFromCloud =
  cfc_ID :: string
  cfc_VendorVersion :: string
  cfc_AosVersion :: "64 word"
  cfc_Annotations :: string
  cfc_DecryptDataStruct :: DecryptDataStruct

datatype umError =
    ComponentIdNotFound string
  | TranslateURLError string
  | StorageError string
  | UpdateFailure string

text \<open>The message of an error, before the place of the call that \<open>aoserrors\<close> adds. The
  first is the format \<open>component id %s not found\<close> of \<open>addComponentForUpdateToUm\<close>.\<close>

fun errorMessage :: "umError \<Rightarrow> string" where
  "errorMessage (ComponentIdNotFound i) = ''component id '' @ i @ '' not found''"
| "errorMessage (TranslateURLError e) = e"
| "errorMessage (StorageError e) = e"
| "errorMessage (UpdateFailure e) = e"

text \<open>The controller: its connections, the current components, the current state of its
  state machine, and the error of the last update.\<close>

record Controller =
  connections :: "umConnection list"
  currentComponents :: "ComponentInfo list"
  fsmCurrent :: string
  operable :: bool
  updateError :: "umError option"

definition stateInit :: string where "stateInit = ''init''"
definition stateIdle :: string where "stateIdle = ''idle''"
definition stateFaultState :: string where "stateFaultState = ''fault''"

definition evUpdateRequest :: string where "evUpdateRequest = ''updateRequest''"
definition evUpdateFailed :: string where "evUpdateFailed = ''updateFailed''"

text \<open>What \<open>UpdateComponents\<close> does to the outside: the plan it hands to the storage, an
  event it gives to the state machine itself, an event it leaves to a goroutine, and the
  wait on the update-finish condition.\<close>

datatype umEffect =
    SetComponentsUpdateInfo "SystemComponent list"
  | FSMEvent string
  | GoFSMEvent string
  | WaitUpdateFinish

datatype updateOutcome =
    Returned "ComponentInfo list" "umError option"
  | BlockedOnUpdateFinish
  | Panicked panic

section \<open>UM controller: the current components\<close>

text \<open>
  The loop of \<open>updateComponentElement\<close>: \<open>Some\<close> is the list at the \<open>return\<close> inside the
  loop, \<open>None\<close> is leaving the loop, by \<open>break\<close> at an installed element that a report
  with another status meets or at the end of the range. After the loop the report is
  appended as a new element.
\<close>

fun updateComponentLoop :: "ComponentInfo list \<Rightarrow> systemComponentStatus \<Rightarrow> ComponentInfo list option" where
  "updateComponentLoop [] component = None"
| "updateComponentLoop (curElement # rest) component =
     (if ci_ID curElement = scs_id component
         \<and> ci_VendorVersion curElement = scs_vendorVersion component
      then (if ci_Status curElement = InstalledStatus \<and> scs_status component \<noteq> InstalledStatus
            then None
            else if ci_Status curElement \<noteq> scs_status component
            then Some (curElement\<lparr>ci_Status := scs_status component,
                                    ci_Error := scs_err component\<rparr> # rest)
            else Some (curElement # rest))
      else map_option ((#) curElement) (updateComponentLoop rest component))"

definition updateComponentElement :: "ComponentInfo list \<Rightarrow> systemComponentStatus \<Rightarrow> ComponentInfo list" where
  "updateComponentElement current component =
     (case updateComponentLoop current component of
        Some current' \<Rightarrow> current'
      | None \<Rightarrow> current @ [\<lparr>ci_ID = scs_id component,
                              ci_AosVersion = scs_aosVersion component,
                              ci_VendorVersion = scs_vendorVersion component,
                              ci_Status = scs_status component,
                              ci_Error = scs_err component\<rparr>])"

text \<open>The removal loop of \<open>updateCurrentComponetsStatus\<close>: the collected positions are in
  rising order, and each is taken out at its position less the number taken out before.\<close>

fun removeIndexes :: "nat \<Rightarrow> nat list \<Rightarrow> 'a list \<Rightarrow> 'a list" where
  "removeIndexes i [] current = current"
| "removeIndexes i (v # rest) current = removeIndexes (Suc i) rest (removeAt (v - i) current)"

definition toRemove :: "ComponentInfo list \<Rightarrow> systemComponentStatus \<Rightarrow> nat list" where
  "toRemove current v =
     [i \<leftarrow> [0 ..< length current].
        scs_id v = ci_ID (current ! i)
        \<and> ci_Status (current ! i) = InstalledStatus
        \<and> scs_vendorVersion v \<noteq> ci_VendorVersion (current ! i)]"

fun updateCurrentComponetsStatus :: "ComponentInfo list \<Rightarrow> systemComponentStatus list \<Rightarrow> ComponentInfo list" where
  "updateCurrentComponetsStatus current [] = current"
| "updateCurrentComponetsStatus current (v # rest) =
     (let current = (if scs_status v = InstalledStatus
                     then removeIndexes 0 (toRemove current v) current
                     else current)
      in updateCurrentComponetsStatus (updateComponentElement current v) rest)"

section \<open>UM controller: the current components, properties\<close>

lemma updateComponentLoop_length:
  "updateComponentLoop current component = Some current' \<Longrightarrow> length current' = length current"
  by (induction current arbitrary: current') (auto split: if_splits)

lemma updateComponentLoop_keeps_installed:
  "updateComponentLoop current component = Some current' \<Longrightarrow>
   scs_status component \<noteq> InstalledStatus \<Longrightarrow> i < length current \<Longrightarrow>
   ci_Status (current ! i) = InstalledStatus \<Longrightarrow>
   length current' = length current \<and> current' ! i = current ! i"
proof (induction current arbitrary: current' i)
  case Nil
  then show ?case by simp
next
  case (Cons e rest)
  show ?case
  proof (cases "ci_ID e = scs_id component \<and> ci_VendorVersion e = scs_vendorVersion component")
    case True
    with Cons.prems show ?thesis
      by (cases i) (auto split: if_splits)
  next
    case False
    with Cons.prems obtain r where r: "updateComponentLoop rest component = Some r"
      and c: "current' = e # r"
      by auto
    show ?thesis
    proof (cases i)
      case 0
      with c updateComponentLoop_length [OF r] show ?thesis by simp
    next
      case (Suc j)
      with Cons.prems have "j < length rest" "ci_Status (rest ! j) = InstalledStatus" by auto
      from Cons.IH [OF r Cons.prems(2) this] c Suc show ?thesis by simp
    qed
  qed
qed

lemma updateComponentElement_keeps_installed:
  assumes "scs_status component \<noteq> InstalledStatus" and "i < length current"
    and "ci_Status (current ! i) = InstalledStatus"
  shows "i < length (updateComponentElement current component)
     \<and> updateComponentElement current component ! i = current ! i"
proof (cases "updateComponentLoop current component")
  case None
  with assms show ?thesis by (simp add: updateComponentElement_def nth_append)
next
  case (Some current')
  from updateComponentLoop_keeps_installed [OF Some assms] assms(2) Some
  show ?thesis by (simp add: updateComponentElement_def)
qed

lemma updateCurrentComponetsStatus_keeps_installed:
  "\<forall>r \<in> set reports. scs_status r \<noteq> InstalledStatus \<Longrightarrow> i < length current \<Longrightarrow>
   ci_Status (current ! i) = InstalledStatus \<Longrightarrow>
   i < length (updateCurrentComponetsStatus current reports)
   \<and> updateCurrentComponetsStatus current reports ! i = current ! i"
proof (induction reports arbitrary: current)
  case Nil
  then show ?case by simp
next
  case (Cons r reports)
  from Cons.prems have r: "scs_status r \<noteq> InstalledStatus" by simp
  from updateComponentElement_keeps_installed [OF r Cons.prems(2,3)]
  have step: "i < length (updateComponentElement current r)"
    "updateComponentElement current r ! i = current ! i"
    by simp_all
  with Cons.prems(3) have "ci_Status (updateComponentElement current r ! i) = InstalledStatus"
    by simp
  from Cons.IH [OF _ step(1) this] Cons.prems(1) step(2) r show ?case by simp
qed

text \<open>
  Claim C9. Let the current components hold, at some position, an entry with status
  \<open>installed\<close>. Every report for the id and vendor version of that entry with a status
  other than \<open>installed\<close>, applied by \<open>updateComponentElement\<close>, leaves the entry at its
  position with its status and error as they were; so does every sequence of such reports
  applied by \<open>updateCurrentComponetsStatus\<close>.
\<close>

theorem installed_entry_not_downgraded:
  assumes "i < length current"
    and "ci_Status (current ! i) = InstalledStatus"
    and "\<forall>r \<in> set reports. scs_id r = ci_ID (current ! i)
          \<and> scs_vendorVersion r = ci_VendorVersion (current ! i)
          \<and> scs_status r \<noteq> InstalledStatus"
  shows "(\<forall>r \<in> set reports.
            i < length (updateComponentElement current r)
            \<and> ci_Status (updateComponentElement current r ! i) = ci_Status (current ! i)
            \<and> ci_Error (updateComponentElement current r ! i) = ci_Error (current ! i)
            \<and> updateComponentElement current r ! i = current ! i)
     \<and> i < length (updateCurrentComponetsStatus current reports)
     \<and> updateCurrentComponetsStatus current reports ! i = current ! i"
proof -
  have "\<forall>r \<in> set reports.
      i < length (updateComponentElement current r)
      \<and> ci_Status (updateComponentElement current r ! i) = ci_Status (current ! i)
      \<and> ci_Error (updateComponentElement current r ! i) = ci_Error (current ! i)
      \<and> updateComponentElement current r ! i = current ! i"
  proof
    fix r assume "r \<in> set reports"
    with assms(3) have "scs_status r \<noteq> InstalledStatus" by blast
    from updateComponentElement_keeps_installed [OF this assms(1,2)]
    show "i < length (updateComponentElement current r)
      \<and> ci_Status (updateComponentElement current r ! i) = ci_Status (current ! i)
      \<and> ci_Error (updateComponentElement current r ! i) = ci_Error (current ! i)
      \<and> updateComponentElement current r ! i = current ! i"
      by simp
  qed
  moreover from assms(3) have "\<forall>r \<in> set reports. scs_status r \<noteq> InstalledStatus" by blast
  from updateCurrentComponetsStatus_keeps_installed [OF this assms(1,2)]
  have "i < length (updateCurrentComponetsStatus current reports)
     \<and> updateCurrentComponetsStatus current reports ! i = current ! i" .
  ultimately show ?thesis by blast
qed

text \<open>A sample: component \<open>um1C1\<close> installed at version 1, then reported at version 1 as
  failed and as installing.\<close>

definition compInstalled :: ComponentInfo where
  "compInstalled = \<lparr>ci_ID = ''um1C1'', ci_AosVersion = 1, ci_VendorVersion = ''1'',
     ci_Status = ''installed'', ci_Error = []\<rparr>"

definition reportFailed :: systemComponentStatus where
  "reportFailed = \<lparr>scs_id = ''um1C1'', scs_vendorVersion = ''1'', scs_aosVersion = 1,
     scs_status = ''error'', scs_err = ''update failed''\<rparr>"

definition reportInstalling :: systemComponentStatus where
  "reportInstalling = \<lparr>scs_id = ''um1C1'', scs_vendorVersion = ''1'', scs_aosVersion = 1,
     scs_status = ''installing'', scs_err = []\<rparr>"

theorem installed_entry_not_downgraded_witness:
  "(0::nat) < length [compInstalled]
   \<and> ci_Status ([compInstalled] ! 0) = InstalledStatus
   \<and> scs_id reportFailed = ci_ID compInstalled
   \<and> scs_vendorVersion reportFailed = ci_VendorVersion compInstalled
   \<and> scs_status reportFailed \<noteq> InstalledStatus
   \<and> scs_status reportInstalling \<noteq> InstalledStatus
   \<and> updateComponentElement [compInstalled] reportFailed
       = [compInstalled, compInstalled\<lparr>ci_Status := ''error'', ci_Error := ''update failed''\<rparr>]
   \<and> updateCurrentComponetsStatus [compInstalled] [reportFailed, reportInstalling]
       = [compInstalled, compInstalled\<lparr>ci_Status := ''error'', ci_Error := ''update failed''\<rparr>,
          compInstalled\<lparr>ci_Status := ''installing''\<rparr>]
   \<and> updateCurrentComponetsStatus [compInstalled] [reportFailed, reportInstalling] ! 0
       = compInstalled"
  using installed_entry_not_downgraded [of 0 "[compInstalled]" "[reportFailed, reportInstalling]"]
  by (simp add: compInstalled_def reportFailed_def reportInstalling_def InstalledStatus_def
      updateComponentElement_def)

section \<open>UM controller: update of components\<close>

text \<open>
  \<open>addComponentForUpdateToUm\<close>: the connections in their order, and for each its
  component ids; the first connection that owns the id gets the component, with the URL
  translated for it, at the end of its packages. \<open>translateURL\<close> is the URL translator:
  it returns an error message or the new URL.
\<close>

fun addComponentToConnections ::
  "(bool \<Rightarrow> string \<Rightarrow> string + string) \<Rightarrow> SystemComponent \<Rightarrow> umConnection list \<Rightarrow>
   umError option \<times> umConnection list" where
  "addComponentToConnections translateURL componentInfo [] =
     (Some (ComponentIdNotFound (sc_ID componentInfo)), [])"
| "addComponentToConnections translateURL componentInfo (conn # rest) =
     (if list_ex (\<lambda>i. i = sc_ID componentInfo) (um_components conn)
      then (case translateURL (um_isLocalClient conn) (sc_URL componentInfo) of
              Inl err \<Rightarrow> (Some (TranslateURLError err), conn # rest)
            | Inr newURL \<Rightarrow>
                (None, conn\<lparr>um_updatePackages := um_updatePackages conn
                               @ [componentInfo\<lparr>sc_URL := newURL\<rparr>]\<rparr> # rest))
      else (case addComponentToConnections translateURL componentInfo rest of
              (err, rest') \<Rightarrow> (err, conn # rest')))"

definition addComponentForUpdateToUm ::
  "(bool \<Rightarrow> string \<Rightarrow> string + string) \<Rightarrow> Controller \<Rightarrow> SystemComponent \<Rightarrow>
   umError option \<times> Controller" where
  "addComponentForUpdateToUm translateURL umCtrl componentInfo =
     (case addComponentToConnections translateURL componentInfo (connections umCtrl) of
        (err, conns) \<Rightarrow> (err, umCtrl\<lparr>connections := conns\<rparr>))"

text \<open>\<open>generateFSMEvent\<close>: nothing is given to the state machine once the controller is
  closed.\<close>

definition generateFSMEvent :: "Controller \<Rightarrow> string \<Rightarrow> umEffect list" where
  "generateFSMEvent umCtrl event = (if \<not> operable umCtrl then [] else [FSMEvent event])"

text \<open>The loop of \<open>UpdateComponents\<close> over the components: it ends in a panic (a
  component with no URL, at \<open>component.URLs[0]\<close>), in the error of
  \<open>addComponentForUpdateToUm\<close>, or with the plan for the storage.\<close>

datatype loopResult =
    LoopPanic panic Controller
  | LoopError umError Controller
  | LoopDone Controller "SystemComponent list"

fun componentsLoop ::
  "(bool \<Rightarrow> string \<Rightarrow> string + string) \<Rightarrow> ComponentInfoFromCloud list \<Rightarrow> Controller \<Rightarrow>
   SystemComponent list \<Rightarrow> loopResult" where
  "componentsLoop translateURL [] umCtrl componentsUpdateInfo = LoopDone umCtrl componentsUpdateInfo"
| "componentsLoop translateURL (component # rest) umCtrl componentsUpdateInfo =
     (case elems (dd_URLs (cfc_DecryptDataStruct component)) of
        [] \<Rightarrow> LoopPanic IndexOutOfRange umCtrl
      | url # _ \<Rightarrow>
          let componentStatus = \<lparr>scs_id = cfc_ID component,
                scs_vendorVersion = cfc_VendorVersion component,
                scs_aosVersion = cfc_AosVersion component,
                scs_status = DownloadedStatus, scs_err = []\<rparr>;
              componentInfo = \<lparr>sc_ID = cfc_ID component,
                sc_VendorVersion = cfc_VendorVersion component,
                sc_AosVersion = cfc_AosVersion component,
                sc_Annotations = cfc_Annotations component,
                sc_URL = url,
                sc_Sha256 = dd_Sha256 (cfc_DecryptDataStruct component),
                sc_Sha512 = dd_Sha512 (cfc_DecryptDataStruct component),
                sc_Size = dd_Size (cfc_DecryptDataStruct component)\<rparr>
          in case addComponentForUpdateToUm translateURL umCtrl componentInfo of
               (Some err, umCtrl) \<Rightarrow> LoopError err umCtrl
             | (None, umCtrl) \<Rightarrow>
                 componentsLoop translateURL rest
                   (umCtrl\<lparr>currentComponents :=
                       updateComponentElement (currentComponents umCtrl) componentStatus\<rparr>)
                   (componentsUpdateInfo @ [componentInfo]))"

text \<open>
  \<open>UpdateComponents\<close> up to its return or to the wait on the update-finish condition;
  what it returns after the wait is decided by later steps of the controller.
  \<open>storageErr\<close> is the error of \<open>SetComponentsUpdateInfo\<close>, if any.
\<close>

definition UpdateComponents ::
  "(bool \<Rightarrow> string \<Rightarrow> string + string) \<Rightarrow> string option \<Rightarrow> Controller \<Rightarrow>
   ComponentInfoFromCloud list \<Rightarrow> updateOutcome \<times> Controller \<times> umEffect list" where
  "UpdateComponents translateURL storageErr umCtrl components =
     (if fsmCurrent umCtrl = stateIdle
      then (let umCtrl = umCtrl\<lparr>updateError := None\<rparr> in
            if length components = 0
            then (Returned (currentComponents umCtrl) None, umCtrl, [])
            else (case componentsLoop translateURL components umCtrl [] of
                    LoopPanic p umCtrl \<Rightarrow> (Panicked p, umCtrl, [])
                  | LoopError err umCtrl \<Rightarrow>
                      (Returned (currentComponents umCtrl) (Some err), umCtrl, [])
                  | LoopDone umCtrl componentsUpdateInfo \<Rightarrow>
                      (case storageErr of
                         Some err \<Rightarrow>
                           (Returned (currentComponents umCtrl) (Some (StorageError err)), umCtrl,
                            [SetComponentsUpdateInfo componentsUpdateInfo, GoFSMEvent evUpdateFailed])
                       | None \<Rightarrow>
                           (BlockedOnUpdateFinish, umCtrl,
                            [SetComponentsUpdateInfo componentsUpdateInfo]
                            @ generateFSMEvent umCtrl evUpdateRequest @ [WaitUpdateFinish]))))
      else (BlockedOnUpdateFinish, umCtrl, [WaitUpdateFinish]))"

section \<open>UM controller: properties of the update of components\<close>

lemma addComponentToConnections_unowned:
  "\<forall>conn \<in> set conns. sc_ID c \<notin> set (um_components conn) \<Longrightarrow>
   addComponentToConnections tr c conns = (Some (ComponentIdNotFound (sc_ID c)), conns)"
  by (induction conns) (auto simp: list_ex_iff)

lemma addComponentToConnections_components:
  "addComponentToConnections tr c conns = (err, conns') \<Longrightarrow>
   map um_components conns' = map um_components conns"
  by (induction conns arbitrary: err conns') (auto split: if_splits sum.splits prod.splits)

lemma addComponentToConnections_owned:
  "addComponentToConnections tr c conns = (None, conns') \<Longrightarrow>
   \<exists>conn \<in> set conns. sc_ID c \<in> set (um_components conn)"
  by (induction conns arbitrary: conns')
    (auto simp: list_ex_iff split: if_splits sum.splits prod.splits)

lemma componentsLoop_append:
  "componentsLoop tr (pre @ post) u info =
     (case componentsLoop tr pre u info of
        LoopDone u1 info1 \<Rightarrow> componentsLoop tr post u1 info1
      | LoopPanic p u1 \<Rightarrow> LoopPanic p u1
      | LoopError e u1 \<Rightarrow> LoopError e u1)"
  by (induction pre arbitrary: u info)
    (auto simp: Let_def split: list.splits prod.splits option.splits)

lemma componentsLoop_owners:
  "componentsLoop tr comps u info = LoopDone u1 info1 \<Longrightarrow>
   map um_components (connections u1) = map um_components (connections u)
   \<and> (\<forall>c \<in> set comps. \<exists>conn \<in> set (connections u). cfc_ID c \<in> set (um_components conn))"
proof (induction comps arbitrary: u info)
  case Nil
  then show ?case by simp
next
  case (Cons c comps)
  from Cons.prems obtain url urls where url: "elems (dd_URLs (cfc_DecryptDataStruct c)) = url # urls"
    by (auto split: list.splits)
  let ?info = "\<lparr>sc_ID = cfc_ID c, sc_VendorVersion = cfc_VendorVersion c,
      sc_AosVersion = cfc_AosVersion c, sc_Annotations = cfc_Annotations c, sc_URL = url,
      sc_Sha256 = dd_Sha256 (cfc_DecryptDataStruct c),
      sc_Sha512 = dd_Sha512 (cfc_DecryptDataStruct c),
      sc_Size = dd_Size (cfc_DecryptDataStruct c)\<rparr>"
  let ?status = "\<lparr>scs_id = cfc_ID c, scs_vendorVersion = cfc_VendorVersion c,
      scs_aosVersion = cfc_AosVersion c, scs_status = DownloadedStatus, scs_err = []\<rparr>"
  obtain err conns where add: "addComponentToConnections tr ?info (connections u) = (err, conns)"
    by (cases "addComponentToConnections tr ?info (connections u)")
  with Cons.prems url have none: "err = None"
    by (cases err) (auto simp: addComponentForUpdateToUm_def Let_def)
  let ?u = "u\<lparr>connections := conns,
      currentComponents := updateComponentElement (currentComponents u) ?status\<rparr>"
  from Cons.prems url add none
  have rest: "componentsLoop tr comps ?u (info @ [?info]) = LoopDone u1 info1"
    by (simp add: addComponentForUpdateToUm_def Let_def)
  from addComponentToConnections_components [OF add]
  have same: "map um_components (connections ?u) = map um_components (connections u)"
    by simp
  from addComponentToConnections_owned [OF add [unfolded none]]
  have owned: "\<exists>conn \<in> set (connections u). cfc_ID c \<in> set (um_components conn)"
    by simp
  from Cons.IH [OF rest]
  have ih: "map um_components (connections u1) = map um_components (connections ?u)"
    "\<forall>c \<in> set comps. \<exists>conn \<in> set (connections ?u). cfc_ID c \<in> set (um_components conn)"
    by blast+
  have "\<forall>c \<in> set comps. \<exists>conn \<in> set (connections u). cfc_ID c \<in> set (um_components conn)"
  proof
    fix d assume "d \<in> set comps"
    with ih(2) obtain conn where "conn \<in> set (connections ?u)" "cfc_ID d \<in> set (um_components conn)"
      by blast
    then have "\<exists>cs \<in> set (map um_components (connections ?u)). cfc_ID d \<in> set cs"
      by (metis image_eqI list.set_map)
    then have "\<exists>cs \<in> set (map um_components (connections u)). cfc_ID d \<in> set cs"
      unfolding same .
    then show "\<exists>conn \<in> set (connections u). cfc_ID d \<in> set (um_components conn)"
      by auto
  qed
  with ih(1) same owned show ?case by simp
qed

lemma componentsLoop_no_panic:
  "\<forall>d \<in> set comps. elems (dd_URLs (cfc_DecryptDataStruct d)) \<noteq> [] \<Longrightarrow>
   componentsLoop tr comps u info \<noteq> LoopPanic p u1"
  by (induction comps arbitrary: u info)
    (auto simp: Let_def split: list.splits prod.splits option.splits)

text \<open>
  Claim C10. In the idle state with no components, \<open>UpdateComponents\<close> resets the stored
  update error and returns the current components with no error at once: nothing is
  handed to the storage, no event is given to the state machine and the call does not
  wait on the update-finish condition.
\<close>

theorem UpdateComponents_idle_empty:
  "fsmCurrent umCtrl = stateIdle \<Longrightarrow>
   UpdateComponents translateURL storageErr umCtrl [] =
     (Returned (currentComponents umCtrl) None, umCtrl\<lparr>updateError := None\<rparr>, [])"
  by (simp add: UpdateComponents_def)

text \<open>A sample controller in the idle state: one connected local UM that owns two
  components, both installed; the last update failed.\<close>

definition um1 :: umConnection where
  "um1 = \<lparr>um_umID = ''testUM1'', um_isLocalClient = True, um_handler = Some 1,
     um_updatePriority = 1, um_state = ''IDLE'', um_components = [''um1C1'', ''um1C2''],
     um_updatePackages = []\<rparr>"

definition ctrlIdle :: Controller where
  "ctrlIdle = \<lparr>connections = [um1],
     currentComponents = [compInstalled, compInstalled\<lparr>ci_ID := ''um1C2''\<rparr>],
     fsmCurrent = ''idle'', operable = True,
     updateError = Some (UpdateFailure ''update failure umID = testUM1'')\<rparr>"

theorem UpdateComponents_idle_empty_witness:
  "fsmCurrent ctrlIdle = stateIdle
   \<and> UpdateComponents (\<lambda>isLocal url. Inr url) None ctrlIdle [] =
       (Returned [compInstalled, compInstalled\<lparr>ci_ID := ''um1C2''\<rparr>] None,
        ctrlIdle\<lparr>updateError := None\<rparr>, [])"
  using UpdateComponents_idle_empty [of ctrlIdle "\<lambda>isLocal url. Inr url" None]
  by (simp add: ctrlIdle_def stateIdle_def)

text \<open>Whether a text occurs in a message: \<open>hasPrefix s p\<close> when \<open>s\<close> starts with \<open>p\<close>,
  \<open>containsText s t\<close> when \<open>t\<close> stands somewhere in \<open>s\<close>.\<close>

fun hasPrefix :: "string \<Rightarrow> string \<Rightarrow> bool" where
  "hasPrefix s [] = True"
| "hasPrefix [] (p # ps) = False"
| "hasPrefix (c # s) (p # ps) = (c = p \<and> hasPrefix s ps)"

fun containsText :: "string \<Rightarrow> string \<Rightarrow> bool" where
  "containsText [] substr = (substr = [])"
| "containsText (c # s) substr = (hasPrefix (c # s) substr \<or> containsText s substr)"

text \<open>Sample components: one that no UM owns, the same with no URL, and one that the
  sample UM owns; the package that the UM gets for the owned one, and the controller
  after it got it.\<close>

definition compUnknown :: ComponentInfoFromCloud where
  "compUnknown = \<lparr>cfc_ID = ''um9C9'', cfc_VendorVersion = ''2'', cfc_AosVersion = 2,
     cfc_Annotations = [],
     cfc_DecryptDataStruct = noDecrypt\<lparr>dd_URLs := Some [''https://example.com/um9C9'']\<rparr>\<rparr>"

definition compNoURL :: ComponentInfoFromCloud where
  "compNoURL = compUnknown\<lparr>cfc_DecryptDataStruct := noDecrypt\<rparr>"

definition compOwned :: ComponentInfoFromCloud where
  "compOwned = \<lparr>cfc_ID = ''um1C2'', cfc_VendorVersion = ''2'', cfc_AosVersion = 2,
     cfc_Annotations = [],
     cfc_DecryptDataStruct = noDecrypt\<lparr>dd_URLs := Some [''https://example.com/um1C2'']\<rparr>\<rparr>"

definition pkgOwned :: SystemComponent where
  "pkgOwned = \<lparr>sc_ID = ''um1C2'', sc_VendorVersion = ''2'', sc_AosVersion = 2,
     sc_Annotations = [], sc_URL = ''https://example.com/um1C2'', sc_Sha256 = None, sc_Sha512 = None,
     sc_Size = 0\<rparr>"

definition ctrlOwnedGiven :: Controller where
  "ctrlOwnedGiven = \<lparr>connections = [um1\<lparr>um_updatePackages := [pkgOwned]\<rparr>],
     currentComponents = [compInstalled, compInstalled\<lparr>ci_ID := ''um1C2''\<rparr>,
       \<lparr>ci_ID = ''um1C2'', ci_AosVersion = 2, ci_VendorVersion = ''2'',
        ci_Status = ''downloaded'', ci_Error = []\<rparr>],
     fsmCurrent = ''idle'', operable = True, updateError = None\<rparr>"

text \<open>
  Claim C8 fails on the code in three ways. The message of the error for a component
  that no UM owns is \<open>component id <id> not found\<close>, with the id in the middle: the text
  \<open>component id not found\<close> does not occur in it. When the URL of an owned component
  that comes before the unowned one cannot be translated, the call returns the
  translator's error, which says nothing of a component id. And when the unowned
  component has no URL the call does not return: it panics at \<open>component.URLs[0]\<close>,
  before the owner is looked up. In all three no plan is stored and no event is emitted.
\<close>

theorem UpdateComponents_unknown_component_counterexample:
  "fsmCurrent ctrlIdle = stateIdle
   \<and> cfc_ID compUnknown \<notin> set (um_components um1)
   \<and> UpdateComponents (\<lambda>isLocal url. Inr url) None ctrlIdle [compUnknown] =
       (Returned [compInstalled, compInstalled\<lparr>ci_ID := ''um1C2''\<rparr>]
          (Some (ComponentIdNotFound ''um9C9'')),
        ctrlIdle\<lparr>updateError := None\<rparr>, [])
   \<and> errorMessage (ComponentIdNotFound ''um9C9'') = ''component id um9C9 not found''
   \<and> \<not> containsText (errorMessage (ComponentIdNotFound ''um9C9'')) ''component id not found''
   \<and> UpdateComponents (\<lambda>isLocal url. Inl ''translate failed'') None ctrlIdle [compOwned, compUnknown] =
       (Returned [compInstalled, compInstalled\<lparr>ci_ID := ''um1C2''\<rparr>]
          (Some (TranslateURLError ''translate failed'')),
        ctrlIdle\<lparr>updateError := None\<rparr>, [])
   \<and> \<not> containsText (errorMessage (TranslateURLError ''translate failed'')) ''not found''
   \<and> cfc_ID compNoURL \<notin> set (um_components um1)
   \<and> UpdateComponents (\<lambda>isLocal url. Inr url) None ctrlIdle [compNoURL] =
       (Panicked IndexOutOfRange, ctrlIdle\<lparr>updateError := None\<rparr>, [])"
  by (simp add: UpdateComponents_def ctrlIdle_def um1_def compUnknown_def compOwned_def
      compNoURL_def stateIdle_def noDecrypt_def elems_def addComponentForUpdateToUm_def
      compInstalled_def)

text \<open>
  Claim C8 as amended. Let the controller be idle and let no connection own the id of
  component \<open>c\<close>. Whenever \<open>c\<close> is among the components given to \<open>UpdateComponents\<close>, the call makes
  no effect at all (no plan is stored, no \<open>updateRequest\<close> or other event is emitted, it
  does not wait), and whatever it returns is the current components with an error; when
  every given component has a URL the call does return.
  When the components before \<open>c\<close> have all been given to their UMs and \<open>c\<close> has a URL, the
  call returns the current components with the error \<open>component id <id of c> not found\<close>.
\<close>

theorem UpdateComponents_unknown_component:
  assumes "fsmCurrent umCtrl = stateIdle"
    and "\<forall>conn \<in> set (connections umCtrl). cfc_ID c \<notin> set (um_components conn)"
  shows "(c \<in> set components \<longrightarrow>
            snd (snd (UpdateComponents translateURL storageErr umCtrl components)) = []
            \<and> FSMEvent evUpdateRequest
                \<notin> set (snd (snd (UpdateComponents translateURL storageErr umCtrl components)))
            \<and> fst (UpdateComponents translateURL storageErr umCtrl components) \<noteq> BlockedOnUpdateFinish
            \<and> (\<forall>status err.
                  fst (UpdateComponents translateURL storageErr umCtrl components) = Returned status err \<longrightarrow>
                  err \<noteq> None
                  \<and> status = currentComponents
                       (fst (snd (UpdateComponents translateURL storageErr umCtrl components)))))
     \<and> (c \<in> set components
          \<and> (\<forall>d \<in> set components. elems (dd_URLs (cfc_DecryptDataStruct d)) \<noteq> []) \<longrightarrow>
            (\<exists>err. fst (UpdateComponents translateURL storageErr umCtrl components)
               = Returned (currentComponents
                   (fst (snd (UpdateComponents translateURL storageErr umCtrl components))))
                 (Some err)))
     \<and> (elems (dd_URLs (cfc_DecryptDataStruct c)) \<noteq> []
          \<and> componentsLoop translateURL pre (umCtrl\<lparr>updateError := None\<rparr>) [] = LoopDone umCtrl1 info \<longrightarrow>
            UpdateComponents translateURL storageErr umCtrl (pre @ c # post) =
              (Returned (currentComponents umCtrl1) (Some (ComponentIdNotFound (cfc_ID c))),
               umCtrl1, [])
            \<and> errorMessage (ComponentIdNotFound (cfc_ID c))
                = ''component id '' @ cfc_ID c @ '' not found'')"
proof (intro conjI impI)
  assume c: "c \<in> set components"
  let ?u = "umCtrl\<lparr>updateError := None\<rparr>"
  have notDone: "componentsLoop translateURL components ?u [] \<noteq> LoopDone u1 info1" for u1 info1
  proof
    assume "componentsLoop translateURL components ?u [] = LoopDone u1 info1"
    from componentsLoop_owners [OF this] c
    have "\<exists>conn \<in> set (connections ?u). cfc_ID c \<in> set (um_components conn)" by blast
    with assms(2) show False by simp
  qed
  from c have ne: "components \<noteq> []" by auto
  have stops: "(\<exists>p u1. componentsLoop translateURL components ?u [] = LoopPanic p u1)
      \<or> (\<exists>e u1. componentsLoop translateURL components ?u [] = LoopError e u1)"
    using notDone by (cases "componentsLoop translateURL components ?u []") auto
  show "snd (snd (UpdateComponents translateURL storageErr umCtrl components)) = []"
    using assms(1) ne stops by (auto simp: UpdateComponents_def)
  then show "FSMEvent evUpdateRequest
      \<notin> set (snd (snd (UpdateComponents translateURL storageErr umCtrl components)))"
    by simp
  show "fst (UpdateComponents translateURL storageErr umCtrl components) \<noteq> BlockedOnUpdateFinish"
    using assms(1) ne stops by (auto simp: UpdateComponents_def)
  show "\<forall>status err.
      fst (UpdateComponents translateURL storageErr umCtrl components) = Returned status err \<longrightarrow>
      err \<noteq> None
      \<and> status = currentComponents
           (fst (snd (UpdateComponents translateURL storageErr umCtrl components)))"
    using assms(1) ne stops by (auto simp: UpdateComponents_def)
next
  assume a: "c \<in> set components
      \<and> (\<forall>d \<in> set components. elems (dd_URLs (cfc_DecryptDataStruct d)) \<noteq> [])"
  let ?u = "umCtrl\<lparr>updateError := None\<rparr>"
  from a have c: "c \<in> set components"
    and urls: "\<forall>d \<in> set components. elems (dd_URLs (cfc_DecryptDataStruct d)) \<noteq> []"
    by simp_all
  have notDone: "componentsLoop translateURL components ?u [] \<noteq> LoopDone u1 info1" for u1 info1
  proof
    assume "componentsLoop translateURL components ?u [] = LoopDone u1 info1"
    from componentsLoop_owners [OF this] c
    have "\<exists>conn \<in> set (connections ?u). cfc_ID c \<in> set (um_components conn)" by blast
    with assms(2) show False by simp
  qed
  from c have ne: "components \<noteq> []" by auto
  have fails: "\<exists>e u1. componentsLoop translateURL components ?u [] = LoopError e u1"
    using notDone componentsLoop_no_panic [OF urls, of translateURL ?u "[]"]
    by (cases "componentsLoop translateURL components ?u []") auto
  show "\<exists>err. fst (UpdateComponents translateURL storageErr umCtrl components)
      = Returned (currentComponents
          (fst (snd (UpdateComponents translateURL storageErr umCtrl components))))
        (Some err)"
    using assms(1) ne fails by (auto simp: UpdateComponents_def)
next
  assume a: "elems (dd_URLs (cfc_DecryptDataStruct c)) \<noteq> []
      \<and> componentsLoop translateURL pre (umCtrl\<lparr>updateError := None\<rparr>) [] = LoopDone umCtrl1 info"
  then obtain url urls where url: "elems (dd_URLs (cfc_DecryptDataStruct c)) = url # urls"
    by (cases "elems (dd_URLs (cfc_DecryptDataStruct c))") auto
  from a have pre: "componentsLoop translateURL pre (umCtrl\<lparr>updateError := None\<rparr>) [] = LoopDone umCtrl1 info"
    by simp
  from componentsLoop_owners [OF pre]
  have same: "map um_components (connections umCtrl1) = map um_components (connections umCtrl)"
    by simp
  have "\<forall>conn \<in> set (connections umCtrl1). cfc_ID c \<notin> set (um_components conn)"
  proof
    fix conn assume "conn \<in> set (connections umCtrl1)"
    then have "um_components conn \<in> set (map um_components (connections umCtrl1))" by simp
    then have "um_components conn \<in> set (map um_components (connections umCtrl))"
      unfolding same .
    with assms(2) show "cfc_ID c \<notin> set (um_components conn)" by auto
  qed
  then have step: "componentsLoop translateURL (c # post) umCtrl1 info
      = LoopError (ComponentIdNotFound (cfc_ID c)) umCtrl1"
    using url
    by (simp add: addComponentForUpdateToUm_def addComponentToConnections_unowned Let_def)
  have "componentsLoop translateURL (pre @ c # post) (umCtrl\<lparr>updateError := None\<rparr>) []
      = LoopError (ComponentIdNotFound (cfc_ID c)) umCtrl1"
    by (simp add: componentsLoop_append pre step del: componentsLoop.simps)
  with assms(1)
  show "UpdateComponents translateURL storageErr umCtrl (pre @ c # post) =
      (Returned (currentComponents umCtrl1) (Some (ComponentIdNotFound (cfc_ID c))), umCtrl1, [])"
    by (simp add: UpdateComponents_def)
next
  show "errorMessage (ComponentIdNotFound (cfc_ID c)) = ''component id '' @ cfc_ID c @ '' not found''"
    by simp
qed

text \<open>Two sample calls: the unowned component alone, and after an owned component that
  is given to its UM first.\<close>

theorem UpdateComponents_unknown_component_witness:
  "fsmCurrent ctrlIdle = stateIdle
   \<and> cfc_ID compUnknown \<notin> set (um_components um1)
   \<and> compUnknown \<in> set [compUnknown]
   \<and> elems (dd_URLs (cfc_DecryptDataStruct compUnknown)) \<noteq> []
   \<and> componentsLoop (\<lambda>isLocal url. Inr url) [] (ctrlIdle\<lparr>updateError := None\<rparr>) []
       = LoopDone (ctrlIdle\<lparr>updateError := None\<rparr>) []
   \<and> UpdateComponents (\<lambda>isLocal url. Inr url) None ctrlIdle [compUnknown] =
       (Returned [compInstalled, compInstalled\<lparr>ci_ID := ''um1C2''\<rparr>]
          (Some (ComponentIdNotFound ''um9C9'')),
        ctrlIdle\<lparr>updateError := None\<rparr>, [])
   \<and> errorMessage (ComponentIdNotFound ''um9C9'') = ''component id um9C9 not found''
   \<and> compUnknown \<in> set [compOwned, compUnknown]
   \<and> elems (dd_URLs (cfc_DecryptDataStruct compOwned)) \<noteq> []
   \<and> componentsLoop (\<lambda>isLocal url. Inr url) [compOwned] (ctrlIdle\<lparr>updateError := None\<rparr>) []
       = LoopDone ctrlOwnedGiven [pkgOwned]
   \<and> UpdateComponents (\<lambda>isLocal url. Inr url) None ctrlIdle [compOwned, compUnknown] =
       (Returned (currentComponents ctrlOwnedGiven) (Some (ComponentIdNotFound ''um9C9'')),
        ctrlOwnedGiven, [])"
  using UpdateComponents_unknown_component [of ctrlIdle compUnknown "[compUnknown]"
      "\<lambda>isLocal url. Inr url" None "[]" "ctrlIdle\<lparr>updateError := None\<rparr>" "[]" "[]"]
    UpdateComponents_unknown_component [of ctrlIdle compUnknown "[compOwned, compUnknown]"
      "\<lambda>isLocal url. Inr url" None "[compOwned]" ctrlOwnedGiven "[pkgOwned]" "[]"]
  by (simp add: ctrlIdle_def um1_def compUnknown_def stateIdle_def noDecrypt_def elems_def
      compOwned_def pkgOwned_def ctrlOwnedGiven_def addComponentForUpdateToUm_def compInstalled_def
      updateComponentElement_def DownloadedStatus_def InstalledStatus_def Let_def)

end
